theory Spec2Isabelle
  imports Complex_Main "HOL-Library.Multiset" "HOL-Library.Char_ord" "HOL-Library.List_Lexorder"
begin

section \<open>JavaScript runtime values used by the PSD server\<close>

text \<open>
  The server (src/index.ts) computes with JavaScript numbers. A number is modelled as
  \<open>NaN\<close>, one of the two infinities, or a finite value; finite values are exact
  (rationals for general numbers, integers for the results of \<open>Math.round\<close>). An
  arithmetic result overflows to an infinity as a double does; the rounding of a result
  to 53 bits and the sign of zero are left out. A missing property (\<open>undefined\<close>) used
  in arithmetic is \<open>NaN\<close>, as in JavaScript.
\<close>

datatype 'a js = NaN | NInf | Fin 'a | PInf

type_synonym jsnum = "rat js"
type_synonym jsint = "int js"

text \<open>
  The result of an operation on finite numbers: from \<open>2^1024 - 2^970\<close> on, the point
  where rounding to the nearest double leaves the finite range, it is an infinity.
\<close>

definition overflowBound :: rat where
  "overflowBound = 2 ^ 1024 - 2 ^ 970"

definition overflow :: "rat \<Rightarrow> jsnum" where
  "overflow q =
     (if overflowBound \<le> q then PInf else if q \<le> - overflowBound then NInf else Fin q)"

text \<open>A finite number of magnitude at most \<open>2^n\<close>.\<close>

fun mag :: "nat \<Rightarrow> jsnum \<Rightarrow> bool" where
  "mag n (Fin q) = (\<bar>q\<bar> \<le> 2 ^ n)"
| "mag n _ = False"

fun jneg :: "jsnum \<Rightarrow> jsnum" where
  "jneg NaN = NaN"
| "jneg NInf = PInf"
| "jneg PInf = NInf"
| "jneg (Fin a) = Fin (- a)"

fun jadd :: "jsnum \<Rightarrow> jsnum \<Rightarrow> jsnum" where
  "jadd NaN _ = NaN"
| "jadd _ NaN = NaN"
| "jadd PInf NInf = NaN"
| "jadd NInf PInf = NaN"
| "jadd PInf _ = PInf"
| "jadd _ PInf = PInf"
| "jadd NInf _ = NInf"
| "jadd _ NInf = NInf"
| "jadd (Fin a) (Fin b) = overflow (a + b)"

definition jsub :: "jsnum \<Rightarrow> jsnum \<Rightarrow> jsnum" where
  "jsub a b = jadd a (jneg b)"

fun jsign :: "jsnum \<Rightarrow> int" where
  "jsign NaN = 0"
| "jsign NInf = - 1"
| "jsign PInf = 1"
| "jsign (Fin a) = (if a < 0 then - 1 else if 0 < a then 1 else 0)"

fun jmul :: "jsnum \<Rightarrow> jsnum \<Rightarrow> jsnum" where
  "jmul NaN _ = NaN"
| "jmul _ NaN = NaN"
| "jmul (Fin a) (Fin b) = overflow (a * b)"
| "jmul a b =
     (if jsign a * jsign b = 0 then NaN else if 0 < jsign a * jsign b then PInf else NInf)"

text \<open>Division; a divisor of zero is the positive zero.\<close>

fun jdiv :: "jsnum \<Rightarrow> jsnum \<Rightarrow> jsnum" where
  "jdiv NaN _ = NaN"
| "jdiv _ NaN = NaN"
| "jdiv (Fin a) (Fin b) =
     (if b = 0 then (if a = 0 then NaN else if 0 < a then PInf else NInf)
      else overflow (a / b))"
| "jdiv (Fin a) _ = Fin 0"
| "jdiv a (Fin b) = (if (jsign a < 0) = (b < 0) then PInf else NInf)"
| "jdiv _ _ = NaN"

text \<open>The comparison \<open>a > b\<close>: false as soon as one side is \<open>NaN\<close>.\<close>

fun jgt :: "('a::ord) js \<Rightarrow> 'a js \<Rightarrow> bool" where
  "jgt NaN _ = False"
| "jgt _ NaN = False"
| "jgt PInf PInf = False"
| "jgt PInf _ = True"
| "jgt _ PInf = False"
| "jgt NInf _ = False"
| "jgt _ NInf = True"
| "jgt (Fin a) (Fin b) = (b < a)"

text \<open>\<open>Math.max\<close> and \<open>Math.min\<close> of two numbers: \<open>NaN\<close> if either is.\<close>

fun mathMax :: "('a::ord) js \<Rightarrow> 'a js \<Rightarrow> 'a js" where
  "mathMax NaN _ = NaN"
| "mathMax _ NaN = NaN"
| "mathMax a b = (if jgt b a then b else a)"

fun mathMin :: "('a::ord) js \<Rightarrow> 'a js \<Rightarrow> 'a js" where
  "mathMin NaN _ = NaN"
| "mathMin _ NaN = NaN"
| "mathMin a b = (if jgt a b then b else a)"

text \<open>\<open>Math.round\<close> rounds to the nearest integer, a half towards plus infinity.\<close>

fun mathRound :: "jsnum \<Rightarrow> jsint" where
  "mathRound NaN = NaN"
| "mathRound NInf = NInf"
| "mathRound PInf = PInf"
| "mathRound (Fin q) = Fin \<lfloor>q + 1 / 2\<rfloor>"

fun mathFloor :: "jsnum \<Rightarrow> jsint" where
  "mathFloor NaN = NaN"
| "mathFloor NInf = NInf"
| "mathFloor PInf = PInf"
| "mathFloor (Fin q) = Fin \<lfloor>q\<rfloor>"

fun toNum :: "jsint \<Rightarrow> jsnum" where
  "toNum NaN = NaN"
| "toNum NInf = NInf"
| "toNum PInf = PInf"
| "toNum (Fin i) = Fin (of_int i)"

text \<open>
  The remainder \<open>i % 6\<close> of an integer-valued number: the sign of the dividend, and
  \<open>NaN\<close> for a dividend that is not finite.
\<close>

fun jrem6 :: "jsint \<Rightarrow> jsint" where
  "jrem6 (Fin i) = Fin (if i < 0 then - ((- i) mod 6) else i mod 6)"
| "jrem6 _ = NaN"

text \<open>A property that may be missing, read as a number.\<close>

fun num :: "jsnum option \<Rightarrow> jsnum" where
  "num None = NaN"
| "num (Some x) = x"

subsection \<open>Strings\<close>

definition hexDigit :: "nat \<Rightarrow> char" where
  "hexDigit d = ''0123456789abcdef'' ! d"

fun hexDigits :: "nat \<Rightarrow> string" where
  "hexDigits n = (if n < 16 then [hexDigit n] else hexDigits (n div 16) @ [hexDigit (n mod 16)])"

fun decDigits :: "nat \<Rightarrow> string" where
  "decDigits n = (if n < 10 then [hexDigit n] else decDigits (n div 10) @ [hexDigit (n mod 10)])"

declare hexDigits.simps [simp del] decDigits.simps [simp del]

text \<open>\<open>Number.prototype.toString(16)\<close> and \<open>String(n)\<close> of an integer-valued number.\<close>

fun toString16 :: "jsint \<Rightarrow> string" where
  "toString16 NaN = ''NaN''"
| "toString16 PInf = ''Infinity''"
| "toString16 NInf = ''-Infinity''"
| "toString16 (Fin i) = (if i < 0 then ''-'' @ hexDigits (nat (- i)) else hexDigits (nat i))"

fun intToString :: "jsint \<Rightarrow> string" where
  "intToString NaN = ''NaN''"
| "intToString PInf = ''Infinity''"
| "intToString NInf = ''-Infinity''"
| "intToString (Fin i) = (if i < 0 then ''-'' @ decDigits (nat (- i)) else decDigits (nat i))"

definition padStart2 :: "string \<Rightarrow> string" where
  "padStart2 s = replicate (2 - length s) CHR ''0'' @ s"

text \<open>
  \<open>toUpperCase\<close> and \<open>toLowerCase\<close> on the ASCII letters; every other character is
  kept (the case mappings of letters beyond ASCII are left out).
\<close>

definition upperChar :: "char \<Rightarrow> char" where
  "upperChar c =
     (if CHR ''a'' \<le> c \<and> c \<le> CHR ''z'' then char_of (of_char c - (32::nat)) else c)"

definition lowerChar :: "char \<Rightarrow> char" where
  "lowerChar c =
     (if CHR ''A'' \<le> c \<and> c \<le> CHR ''Z'' then char_of (of_char c + (32::nat)) else c)"

definition toUpperCase :: "string \<Rightarrow> string" where
  "toUpperCase s = map upperChar s"

definition toLowerCase :: "string \<Rightarrow> string" where
  "toLowerCase s = map lowerChar s"

section \<open>Colours\<close>

text \<open>
  A raw colour is an object recognised by the properties it carries: \<open>fr fg fb\<close>
  (fractional RGB), \<open>r g b\<close> (RGB), \<open>k\<close> (grayscale), \<open>h s b\<close> (HSB), \<open>l a b\<close> (Lab)
  or \<open>c m y k\<close> (CMYK). Each property is a number or is missing.
\<close>

record color =
  col_fr :: "jsnum option"
  col_fg :: "jsnum option"
  col_fb :: "jsnum option"
  col_r :: "jsnum option"
  col_g :: "jsnum option"
  col_b :: "jsnum option"
  col_k :: "jsnum option"
  col_h :: "jsnum option"
  col_s :: "jsnum option"
  col_l :: "jsnum option"
  col_a :: "jsnum option"
  col_c :: "jsnum option"
  col_m :: "jsnum option"
  col_y :: "jsnum option"

definition noColor :: color where
  "noColor = \<lparr> col_fr = None, col_fg = None, col_fb = None, col_r = None, col_g = None,
     col_b = None, col_k = None, col_h = None, col_s = None, col_l = None, col_a = None,
     col_c = None, col_m = None, col_y = None \<rparr>"

definition rgbColor :: "rat \<Rightarrow> rat \<Rightarrow> rat \<Rightarrow> color" where
  "rgbColor r g b = noColor \<lparr> col_r := Some (Fin r), col_g := Some (Fin g), col_b := Some (Fin b) \<rparr>"

definition frgbColor :: "rat \<Rightarrow> rat \<Rightarrow> rat \<Rightarrow> color" where
  "frgbColor r g b =
     noColor \<lparr> col_fr := Some (Fin r), col_fg := Some (Fin g), col_fb := Some (Fin b) \<rparr>"

definition cmykColor :: "rat \<Rightarrow> rat \<Rightarrow> rat \<Rightarrow> rat \<Rightarrow> color" where
  "cmykColor c m y k = noColor \<lparr> col_c := Some (Fin c), col_m := Some (Fin m),
     col_y := Some (Fin y), col_k := Some (Fin k) \<rparr>"

definition hsbColor :: "rat \<Rightarrow> rat \<Rightarrow> rat \<Rightarrow> color" where
  "hsbColor h s b = noColor \<lparr> col_h := Some (Fin h), col_s := Some (Fin s), col_b := Some (Fin b) \<rparr>"

definition labColor :: "rat \<Rightarrow> rat \<Rightarrow> rat \<Rightarrow> color" where
  "labColor l a b = noColor \<lparr> col_l := Some (Fin l), col_a := Some (Fin a), col_b := Some (Fin b) \<rparr>"

definition grayColor :: "rat \<Rightarrow> color" where
  "grayColor k = noColor \<lparr> col_k := Some (Fin k) \<rparr>"

subsection \<open>anyColorToHex (index.ts, lines 401 to 534)\<close>

text \<open>The HSB branch: the sector \<open>i % 6\<close> selects the three channels, then each is rounded.\<close>

definition hsbChannels :: "jsnum \<Rightarrow> jsnum \<Rightarrow> jsnum \<Rightarrow> jsint \<times> jsint \<times> jsint" where
  "hsbChannels ch cs cb =
     (let h = jdiv ch (Fin 360);
          s = cs;
          v = cb;
          i = mathFloor (jmul h (Fin 6));
          f = jsub (jmul h (Fin 6)) (toNum i);
          p = jmul v (jsub (Fin 1) s);
          q = jmul v (jsub (Fin 1) (jmul f s));
          t = jmul v (jsub (Fin 1) (jmul (jsub (Fin 1) f) s));
          k = jrem6 i;
          rgb = (if k = Fin 0 then (jmul v (Fin 255), jmul t (Fin 255), jmul p (Fin 255))
                 else if k = Fin 1 then (jmul q (Fin 255), jmul v (Fin 255), jmul p (Fin 255))
                 else if k = Fin 2 then (jmul p (Fin 255), jmul v (Fin 255), jmul t (Fin 255))
                 else if k = Fin 3 then (jmul p (Fin 255), jmul q (Fin 255), jmul v (Fin 255))
                 else if k = Fin 4 then (jmul t (Fin 255), jmul p (Fin 255), jmul v (Fin 255))
                 else if k = Fin 5 then (jmul v (Fin 255), jmul p (Fin 255), jmul q (Fin 255))
                 else (Fin 0, Fin 0, Fin 0))
      in (mathRound (fst rgb), mathRound (fst (snd rgb)), mathRound (snd (snd rgb))))"

text \<open>The Lab branch: the simplified Lab to XYZ to RGB conversion, clamped before rounding.\<close>

definition labCorrect :: "jsnum \<Rightarrow> jsnum" where
  "labCorrect x =
     (let x3 = jmul (jmul x x) x
      in if jgt x3 (Fin (8856 / 1000000)) then x3
         else jdiv (jsub x (jdiv (Fin 16) (Fin 116))) (Fin (7787 / 1000)))"

definition clampRound :: "jsnum \<Rightarrow> jsint" where
  "clampRound x = mathRound (mathMax (Fin 0) (mathMin (Fin 255) (jmul x (Fin 255))))"

definition labChannels :: "jsnum \<Rightarrow> jsnum \<Rightarrow> jsnum \<Rightarrow> jsint \<times> jsint \<times> jsint" where
  "labChannels cl ca cb =
     (let y = jdiv (jadd cl (Fin 16)) (Fin 116);
          x = jadd (jdiv ca (Fin 500)) y;
          z = jsub y (jdiv cb (Fin 200));
          xn = labCorrect x;
          yn = labCorrect y;
          zn = labCorrect z;
          xr = jmul xn (Fin (95047 / 100000));
          yr = jmul yn (Fin 1);
          zr = jmul zn (Fin (108883 / 100000))
      in (clampRound (jadd (jadd (jmul xr (Fin (32406 / 10000))) (jmul yr (Fin (- (15372 / 10000)))))
                        (jmul zr (Fin (- (4986 / 10000))))),
          clampRound (jadd (jadd (jmul xr (Fin (- (9689 / 10000)))) (jmul yr (Fin (18758 / 10000))))
                        (jmul zr (Fin (415 / 10000)))),
          clampRound (jadd (jadd (jmul xr (Fin (557 / 10000))) (jmul yr (Fin (- (204 / 1000)))))
                        (jmul zr (Fin (1057 / 1000))))))"

text \<open>
  The if/else chain of \<open>anyColorToHex\<close> that assigns \<open>r\<close>, \<open>g\<close> and \<open>b\<close>, in the
  source's order; \<open>None\<close> is the final \<open>return null\<close>.
\<close>

definition channels :: "color \<Rightarrow> (jsint \<times> jsint \<times> jsint) option" where
  "channels c =
     (if col_fr c \<noteq> None then
        Some (mathRound (jmul (num (col_fr c)) (Fin 255)),
              mathRound (jmul (num (col_fg c)) (Fin 255)),
              mathRound (jmul (num (col_fb c)) (Fin 255)))
      else if col_r c \<noteq> None then
        Some (mathRound (num (col_r c)), mathRound (num (col_g c)), mathRound (num (col_b c)))
      else if col_k c \<noteq> None \<and> col_c c = None then
        (let gray = mathRound (jmul (jsub (Fin 1) (num (col_k c))) (Fin 255))
         in Some (gray, gray, gray))
      else if col_h c \<noteq> None \<and> col_s c \<noteq> None \<and> col_b c \<noteq> None then
        Some (hsbChannels (num (col_h c)) (num (col_s c)) (num (col_b c)))
      else if col_l c \<noteq> None \<and> col_a c \<noteq> None then
        Some (labChannels (num (col_l c)) (num (col_a c)) (num (col_b c)))
      else if col_c c \<noteq> None \<and> col_m c \<noteq> None \<and> col_y c \<noteq> None \<and> col_k c \<noteq> None then
        Some (mathRound (jmul (jmul (Fin 255) (jsub (Fin 1) (num (col_c c))))
                          (jsub (Fin 1) (num (col_k c)))),
              mathRound (jmul (jmul (Fin 255) (jsub (Fin 1) (num (col_m c))))
                          (jsub (Fin 1) (num (col_k c)))),
              mathRound (jmul (jmul (Fin 255) (jsub (Fin 1) (num (col_y c))))
                          (jsub (Fin 1) (num (col_k c)))))
      else None)"

definition clamp255 :: "jsint \<Rightarrow> jsint" where
  "clamp255 r = mathMax (Fin 0) (mathMin (Fin 255) r)"

definition anyColorToHex :: "color option \<Rightarrow> string option" where
  "anyColorToHex color =
     (case color of
        None \<Rightarrow> None
      | Some c \<Rightarrow>
          (case channels c of
             None \<Rightarrow> None
           | Some (r0, g0, b0) \<Rightarrow>
               (let r = clamp255 r0; g = clamp255 g0; b = clamp255 b0
                in Some (toUpperCase (''#'' @ padStart2 (toString16 r) @ padStart2 (toString16 g)
                                       @ padStart2 (toString16 b))))))"

subsection \<open>colorToHex (index.ts, lines 46 to 72)\<close>

definition colorToHex :: "color option \<Rightarrow> string option" where
  "colorToHex color =
     (case color of
        None \<Rightarrow> None
      | Some c \<Rightarrow>
          if col_fr c \<noteq> None then
            Some (''#'' @ padStart2 (toString16 (mathRound (jmul (num (col_fr c)) (Fin 255))))
                       @ padStart2 (toString16 (mathRound (jmul (num (col_fg c)) (Fin 255))))
                       @ padStart2 (toString16 (mathRound (jmul (num (col_fb c)) (Fin 255)))))
          else if col_r c \<noteq> None then
            Some (''#'' @ padStart2 (toString16 (mathRound (num (col_r c))))
                       @ padStart2 (toString16 (mathRound (num (col_g c))))
                       @ padStart2 (toString16 (mathRound (num (col_b c)))))
          else None)"


section \<open>The raw layer tree (ag-psd's \<open>Layer\<close>, as index.ts reads it)\<close>

record colorStop =
  stop_color :: "color option"

record gradient =
  grad_name :: "string option"
  grad_colorStops :: "colorStop list option"

text \<open>
  A vector content is a solid colour (\<open>type === "color"\<close>), a gradient carrying
  \<open>colorStops\<close>, or something else (a noise gradient or a pattern).
\<close>

datatype vectorContent = ColorContent color | GradientContent gradient | OtherContent

record bezierKnot =
  knot_points :: "jsnum list"

record bezierPath =
  path_open :: bool
  path_knots :: "bezierKnot list"

record vectorMask =
  mask_paths :: "bezierPath list"

record vectorStroke =
  stroke_content :: "vectorContent option"
  stroke_lineWidth :: "jsnum option"
  stroke_lineCapType :: "string option"
  stroke_lineJoinType :: "string option"
  stroke_strokeEnabled :: "bool option"

record textStyle =
  style_font :: "string option"
  style_fontSize :: "jsnum option"
  style_fillColor :: "color option"
  style_leading :: "jsnum option"
  style_tracking :: "jsnum option"

record layerText =
  text_text :: string
  text_style :: "textStyle option"

record effectEntry =
  fx_enabled :: "bool option"
  fx_color :: "color option"
  fx_gradient :: "gradient option"

record layerEffects =
  fx_dropShadow :: "effectEntry list option"
  fx_innerShadow :: "effectEntry list option"
  fx_outerGlow :: "effectEntry option"
  fx_innerGlow :: "effectEntry option"
  fx_solidFill :: "effectEntry list option"
  fx_stroke :: "effectEntry list option"
  fx_satin :: "effectEntry option"
  fx_gradientOverlay :: "effectEntry list option"

record rawProps =
  l_name :: "string option"
  l_hidden :: "bool option"
  l_opacity :: "jsnum option"
  l_left :: "jsnum option"
  l_top :: "jsnum option"
  l_right :: "jsnum option"
  l_bottom :: "jsnum option"
  l_text :: "layerText option"
  l_canvas :: bool
  l_vectorMask :: "vectorMask option"
  l_vectorFill :: "vectorContent option"
  l_vectorStroke :: "vectorStroke option"
  l_effects :: "layerEffects option"

datatype layer = Layer (l_props: rawProps) (l_children: "layer list option")

section \<open>The layer tree the server builds (\<open>LayerInfo\<close>)\<close>

datatype layerType = TextLayer | ImageLayer | ShapeLayer | GroupLayer | UnknownLayer

record bounds =
  b_left :: jsnum
  b_top :: jsnum
  b_width :: jsnum
  b_height :: jsnum

record textInfo =
  ti_content :: string
  ti_font :: "string option"
  ti_fontSize :: "jsnum option"
  ti_color :: "string option"
  ti_lineHeight :: "jsnum option"
  ti_letterSpacing :: "jsnum option"

record infoProps =
  i_name :: string
  i_type :: layerType
  i_visible :: bool
  i_opacity :: jsnum
  i_bounds :: bounds
  i_text :: "textInfo option"

datatype layerInfo = LayerInfo (i_props: infoProps) (i_children: "layerInfo list option")

subsection \<open>extractLayerInfo (index.ts, lines 75 to 123)\<close>

text \<open>\<open>x ?? 0\<close> on a number that may be missing.\<close>

fun orZero :: "jsnum option \<Rightarrow> jsnum" where
  "orZero None = Fin 0"
| "orZero (Some x) = x"

definition layerBounds :: "rawProps \<Rightarrow> bounds" where
  "layerBounds p =
     \<lparr> b_left = orZero (l_left p),
       b_top = orZero (l_top p),
       b_width = jsub (orZero (l_right p)) (orZero (l_left p)),
       b_height = jsub (orZero (l_bottom p)) (orZero (l_top p)) \<rparr>"

text \<open>The optional chain \<open>style?.f\<close>.\<close>

definition styleField :: "(textStyle \<Rightarrow> 'a option) \<Rightarrow> textStyle option \<Rightarrow> 'a option" where
  "styleField f style = (case style of None \<Rightarrow> None | Some st \<Rightarrow> f st)"

definition layerTextInfo :: "layerText \<Rightarrow> textInfo" where
  "layerTextInfo t =
     (let style = text_style t
      in \<lparr> ti_content = (if text_text t = [] then [] else text_text t),
           ti_font = styleField style_font style,
           ti_fontSize = styleField style_fontSize style,
           ti_color = colorToHex (styleField style_fillColor style),
           ti_lineHeight = styleField style_leading style,
           ti_letterSpacing = styleField style_tracking style \<rparr>)"

text \<open>The condition \<open>layer.children && layer.children.length > 0\<close>.\<close>

fun nonEmptyChildren :: "'a list option \<Rightarrow> bool" where
  "nonEmptyChildren None = False"
| "nonEmptyChildren (Some xs) = (xs \<noteq> [])"

fun extractLayerInfo :: "layer \<Rightarrow> layerInfo" where
  "extractLayerInfo (Layer p cs) =
     LayerInfo
       \<lparr> i_name = (case l_name p of None \<Rightarrow> ''Unnamed'' | Some n \<Rightarrow> if n = [] then ''Unnamed'' else n),
         i_type =
           (if l_text p \<noteq> None then TextLayer
            else if nonEmptyChildren cs then GroupLayer
            else if l_canvas p then ImageLayer
            else if l_vectorMask p \<noteq> None \<or> l_vectorStroke p \<noteq> None then ShapeLayer
            else UnknownLayer),
         i_visible = (case l_hidden p of None \<Rightarrow> True | Some h \<Rightarrow> \<not> h),
         i_opacity = (case l_opacity p of None \<Rightarrow> Fin 1 | Some x \<Rightarrow> jdiv x (Fin 255)),
         i_bounds = layerBounds p,
         i_text = (case l_text p of None \<Rightarrow> None | Some t \<Rightarrow> Some (layerTextInfo t)) \<rparr>
       (case cs of
          None \<Rightarrow> None
        | Some xs \<Rightarrow> if xs \<noteq> [] then Some (map extractLayerInfo xs) else None)"


section \<open>Vector export\<close>

subsection \<open>Numbers in text\<close>

text \<open>
  \<open>x.toFixed(2)\<close>: the sign, then the magnitude rounded to hundredths, a half upwards.
  (The exponent notation JavaScript switches to from \<open>1e21\<close> on is left out.)
\<close>

fun toFixed2 :: "jsnum \<Rightarrow> string" where
  "toFixed2 NaN = ''NaN''"
| "toFixed2 PInf = ''Infinity''"
| "toFixed2 NInf = ''-Infinity''"
| "toFixed2 (Fin q) =
     (let n = nat \<lfloor>\<bar>q\<bar> * 100 + 1 / 2\<rfloor>
      in (if q < 0 then ''-'' else []) @ decDigits (n div 100) @ ''.''
           @ [hexDigit (n mod 100 div 10), hexDigit (n mod 10)])"

text \<open>
  A number inside a template literal. Integers print in decimal; any other finite value
  prints its decimal expansion, cut after twenty fractional digits (JavaScript prints the
  shortest expansion that reads back as the same double, and an exponent for very large
  and very small values: those are left out).
\<close>

fun fracDigits :: "nat \<Rightarrow> rat \<Rightarrow> string" where
  "fracDigits 0 q = []"
| "fracDigits (Suc k) q =
     (if q = 0 then []
      else hexDigit (nat \<lfloor>q * 10\<rfloor>) # fracDigits k (q * 10 - of_int \<lfloor>q * 10\<rfloor>))"

fun numToString :: "jsnum \<Rightarrow> string" where
  "numToString NaN = ''NaN''"
| "numToString PInf = ''Infinity''"
| "numToString NInf = ''-Infinity''"
| "numToString (Fin q) =
     (let a = \<bar>q\<bar>; fr = a - of_int \<lfloor>a\<rfloor>
      in (if q < 0 then ''-'' else []) @ decDigits (nat \<lfloor>a\<rfloor>)
           @ (if fr = 0 then [] else ''.'' @ fracDigits 20 fr))"

text \<open>\<open>parts.join(sep)\<close>.\<close>

fun joinWith :: "string \<Rightarrow> string list \<Rightarrow> string" where
  "joinWith sep [] = []"
| "joinWith sep [x] = x"
| "joinWith sep (x # y # ys) = x @ sep @ joinWith sep (y # ys)"

subsection \<open>vectorContentToColor (index.ts, lines 161 to 172)\<close>

definition vectorContentToColor :: "vectorContent option \<Rightarrow> string option" where
  "vectorContentToColor content =
     (case content of
        None \<Rightarrow> None
      | Some (ColorContent c) \<Rightarrow>
          if col_r c \<noteq> None then
            Some (''rgb('' @ intToString (mathRound (num (col_r c))) @ '', ''
                   @ intToString (mathRound (num (col_g c))) @ '', ''
                   @ intToString (mathRound (num (col_b c))) @ '')'')
          else None
      | Some _ \<Rightarrow> None)"

subsection \<open>bezierPathsToSvgPath (index.ts, lines 175 to 227)\<close>

text \<open>\<open>knot.points[i]\<close>: \<open>undefined\<close>, hence \<open>NaN\<close> once multiplied, outside the array.\<close>

definition knotPoint :: "bezierKnot \<Rightarrow> nat \<Rightarrow> jsnum" where
  "knotPoint k i = (if i < length (knot_points k) then knot_points k ! i else NaN)"

definition scaleTo :: "jsnum \<Rightarrow> jsnum \<Rightarrow> string" where
  "scaleTo extent v = toFixed2 (jmul v extent)"

definition moveTo :: "jsnum \<Rightarrow> jsnum \<Rightarrow> bezierKnot \<Rightarrow> string" where
  "moveTo width height firstKnot =
     ''M '' @ scaleTo width (knotPoint firstKnot 2) @ '' '' @ scaleTo height (knotPoint firstKnot 3)"

definition curveTo :: "jsnum \<Rightarrow> jsnum \<Rightarrow> bezierKnot \<Rightarrow> bezierKnot \<Rightarrow> string" where
  "curveTo width height currentKnot nextKnot =
     ''C '' @ scaleTo width (knotPoint currentKnot 4) @ '' '' @ scaleTo height (knotPoint currentKnot 5)
       @ '', '' @ scaleTo width (knotPoint nextKnot 0) @ '' '' @ scaleTo height (knotPoint nextKnot 1)
       @ '', '' @ scaleTo width (knotPoint nextKnot 2) @ '' '' @ scaleTo height (knotPoint nextKnot 3)"

text \<open>
  The inner loop \<open>for (let i = 0; i < knots.length; i++)\<close>, from index \<open>i\<close> on: it
  breaks at the last knot of an open path.
\<close>

function curveLoop :: "jsnum \<Rightarrow> jsnum \<Rightarrow> bool \<Rightarrow> bezierKnot list \<Rightarrow> nat \<Rightarrow> string list" where
  "curveLoop width height isOpen knots i =
     (if i < length knots then
        (if isOpen \<and> i = length knots - 1 then []
         else curveTo width height (knots ! i) (knots ! ((i + 1) mod length knots))
                # curveLoop width height isOpen knots (i + 1))
      else [])"
  by pat_completeness auto
termination
  by (relation "measure (\<lambda>(width, height, isOpen, knots, i). length knots - i)") auto

declare curveLoop.simps [simp del]

text \<open>What one path pushes onto \<open>pathData\<close>.\<close>

definition pathCommands :: "jsnum \<Rightarrow> jsnum \<Rightarrow> bezierPath \<Rightarrow> string list" where
  "pathCommands width height bezierPath =
     (let knots = path_knots bezierPath
      in if knots = [] then []
         else moveTo width height (knots ! 0)
                # curveLoop width height (path_open bezierPath) knots 0
                @ (if \<not> path_open bezierPath then [''Z''] else []))"

definition bezierPathsToSvgPath :: "bezierPath list \<Rightarrow> jsnum \<Rightarrow> jsnum \<Rightarrow> string" where
  "bezierPathsToSvgPath paths width height =
     joinWith '' '' (concat (map (pathCommands width height) paths))"

subsection \<open>findVectorLayer and getAllVectorLayers (index.ts, lines 230 to 263)\<close>

text \<open>\<open>s.includes(t)\<close>: \<open>t\<close> occurs in \<open>s\<close> as a contiguous substring.\<close>

fun startsWith :: "string \<Rightarrow> string \<Rightarrow> bool" where
  "startsWith s [] = True"
| "startsWith [] (c # t) = False"
| "startsWith (d # s) (c # t) = (d = c \<and> startsWith s t)"

fun strIncludes :: "string \<Rightarrow> string \<Rightarrow> bool" where
  "strIncludes [] t = (t = [])"
| "strIncludes (d # s) t = (startsWith (d # s) t \<or> strIncludes s t)"

text \<open>\<open>layer.name?.toLowerCase().includes(name.toLowerCase())\<close>.\<close>

definition rawNameMatches :: "rawProps \<Rightarrow> string \<Rightarrow> bool" where
  "rawNameMatches p name =
     (case l_name p of None \<Rightarrow> False | Some n \<Rightarrow> strIncludes (toLowerCase n) (toLowerCase name))"

fun findVectorLayer :: "layer list \<Rightarrow> string \<Rightarrow> layer option" where
  "findVectorLayer [] name = None"
| "findVectorLayer (Layer p cs # rest) name =
     (if rawNameMatches p name \<and> l_vectorMask p \<noteq> None then Some (Layer p cs)
      else (case cs of
              None \<Rightarrow> findVectorLayer rest name
            | Some xs \<Rightarrow>
                (case findVectorLayer xs name of
                   Some found \<Rightarrow> Some found
                 | None \<Rightarrow> findVectorLayer rest name)))"

fun getAllVectorLayers :: "layer list \<Rightarrow> layer list" where
  "getAllVectorLayers [] = []"
| "getAllVectorLayers (Layer p cs # rest) =
     (if l_vectorMask p \<noteq> None then [Layer p cs] else [])
       @ (case cs of None \<Rightarrow> [] | Some xs \<Rightarrow> getAllVectorLayers xs)
       @ getAllVectorLayers rest"

subsection \<open>vectorLayerToSvg (index.ts, lines 266 to 308)\<close>

datatype error = VectorDataMissing

text \<open>\<open>stroke?.lineWidth?.value || 0\<close>: zero and \<open>NaN\<close> are falsy.\<close>

definition strokeWidthOf :: "vectorStroke option \<Rightarrow> jsnum" where
  "strokeWidthOf stroke =
     (case stroke of
        None \<Rightarrow> Fin 0
      | Some st \<Rightarrow>
          (case stroke_lineWidth st of
             None \<Rightarrow> Fin 0
           | Some v \<Rightarrow> if v = NaN \<or> v = Fin 0 then Fin 0 else v))"

definition strokeEnabledOf :: "vectorStroke option \<Rightarrow> bool" where
  "strokeEnabledOf stroke =
     ((case stroke of None \<Rightarrow> True | Some st \<Rightarrow> stroke_strokeEnabled st \<noteq> Some False)
      \<and> jgt (strokeWidthOf stroke) (Fin 0))"

definition strokeColorOf :: "vectorStroke option \<Rightarrow> string option" where
  "strokeColorOf stroke =
     (case stroke of
        None \<Rightarrow> None
      | Some st \<Rightarrow>
          (case stroke_content st of None \<Rightarrow> None | Some c \<Rightarrow> vectorContentToColor (Some c)))"

text \<open>The lines pushed onto \<open>svgParts\<close> when the stroke is drawn.\<close>

definition strokeParts :: \<open>vectorStroke option \<Rightarrow> string list\<close> where
  \<open>strokeParts stroke =
     (case strokeColorOf stroke of
        None \<Rightarrow> []
      | Some strokeColor \<Rightarrow>
          if strokeEnabledOf stroke \<and> strokeColor \<noteq> [] then
            [''        stroke="'' @ strokeColor @ ''"'',
             ''        stroke-width="'' @ numToString (strokeWidthOf stroke) @ ''"'']
            @ (case stroke of
                 None \<Rightarrow> []
               | Some st \<Rightarrow>
                   (case stroke_lineCapType st of
                      None \<Rightarrow> []
                    | Some cap \<Rightarrow>
                        if cap \<noteq> [] then [''        stroke-linecap="'' @ cap @ ''"''] else [])
                   @ (case stroke_lineJoinType st of
                        None \<Rightarrow> []
                      | Some jn \<Rightarrow>
                          if jn \<noteq> [] then [''        stroke-linejoin="'' @ jn @ ''"''] else []))
          else [])\<close>

text \<open>
  The value written into the \<open>fill\<close> attribute:
  \<open>layer.vectorFill ? (vectorContentToColor(layer.vectorFill) || "#000000") : "none"\<close>.
\<close>

definition fillAttribute :: "rawProps \<Rightarrow> string" where
  "fillAttribute p =
     (let fillColor = (case vectorContentToColor (l_vectorFill p) of
                         None \<Rightarrow> ''#000000''
                       | Some s \<Rightarrow> if s = [] then ''#000000'' else s)
      in if l_vectorFill p \<noteq> None then fillColor else ''none'')"

definition svgParts :: \<open>rawProps \<Rightarrow> vectorMask \<Rightarrow> jsnum \<Rightarrow> jsnum \<Rightarrow> string list\<close> where
  \<open>svgParts p vmask width height =
     [''<?xml version="1.0" encoding="UTF-8"?>'',
      ''<svg xmlns="http://www.w3.org/2000/svg" width="'' @ numToString width @ ''" height="''
        @ numToString height @ ''" viewBox="0 0 '' @ numToString width @ '' ''
        @ numToString height @ ''">'',
      ''  <path d="'' @ bezierPathsToSvgPath (mask_paths vmask) width height @ ''"'',
      ''        fill="'' @ fillAttribute p @ ''"'']
     @ strokeParts (l_vectorStroke p)
     @ [''  />'', ''</svg>'']\<close>

definition vectorLayerToSvg :: "layer \<Rightarrow> jsnum \<Rightarrow> jsnum \<Rightarrow> error + string" where
  "vectorLayerToSvg layer width height =
     (case l_vectorMask (l_props layer) of
        None \<Rightarrow> Inl VectorDataMissing
      | Some vmask \<Rightarrow> Inr (joinWith [CHR 0x0A] (svgParts (l_props layer) vmask width height)))"


section \<open>Colour extraction\<close>

record extractedColor =
  ec_hex :: string
  ec_rgb :: "jsint \<times> jsint \<times> jsint"
  ec_source :: string
  ec_layerName :: string

record gradientInfo =
  gi_name :: "string option"
  gi_colors :: "string list"
  gi_source :: string
  gi_layerName :: string

record colorPalette =
  solidColors :: "extractedColor list"
  gradients :: "gradientInfo list"
  uniqueColors :: "string list"

subsection \<open>extractColorsFromLayer (index.ts, lines 537 to 659)\<close>

definition isHexChar :: "char \<Rightarrow> bool" where
  "isHexChar c =
     ((CHR ''0'' \<le> c \<and> c \<le> CHR ''9'') \<or> (CHR ''A'' \<le> c \<and> c \<le> CHR ''F'')
      \<or> (CHR ''a'' \<le> c \<and> c \<le> CHR ''f''))"

definition hexValue :: "char \<Rightarrow> int" where
  "hexValue c =
     (if c \<le> CHR ''9'' then of_char c - 48
      else if c \<le> CHR ''F'' then of_char c - 55
      else of_char c - 87)"

text \<open>
  \<open>parseInt(s, 16)\<close> on a slice of a hex string: the value of the longest prefix of hex
  digits, \<open>NaN\<close> when there is none. (Leading blanks, a sign and a \<open>0x\<close> prefix, which
  \<open>parseInt\<close> also accepts, do not occur in such a slice.)
\<close>

definition parseInt16 :: "string \<Rightarrow> jsint" where
  "parseInt16 s =
     (let ds = takeWhile isHexChar s
      in if ds = [] then NaN else Fin (foldl (\<lambda>acc c. acc * 16 + hexValue c) 0 ds))"

text \<open>\<open>s.slice(i, j)\<close> for \<open>0 \<le> i \<le> j\<close>.\<close>

definition slice :: "string \<Rightarrow> nat \<Rightarrow> nat \<Rightarrow> string" where
  "slice s i j = take (j - i) (drop i s)"

definition addColor :: "string \<Rightarrow> color option \<Rightarrow> string \<Rightarrow> extractedColor list" where
  "addColor layerName color source =
     (case anyColorToHex color of
        None \<Rightarrow> []
      | Some hex \<Rightarrow>
          if hex = [] then []
          else [\<lparr> ec_hex = hex,
                  ec_rgb = (parseInt16 (slice hex 1 3), parseInt16 (slice hex 3 5),
                            parseInt16 (slice hex 5 7)),
                  ec_source = source,
                  ec_layerName = layerName \<rparr>])"

definition addGradient :: "string \<Rightarrow> gradient option \<Rightarrow> string \<Rightarrow> gradientInfo list" where
  "addGradient layerName grad source =
     (case grad of
        None \<Rightarrow> []
      | Some g \<Rightarrow>
          (case grad_colorStops g of
             None \<Rightarrow> []
           | Some stops \<Rightarrow>
               (let gradientColors =
                      concat (map (\<lambda>stop. case anyColorToHex (stop_color stop) of
                                             None \<Rightarrow> [] | Some h \<Rightarrow> [h]) stops)
                in if length gradientColors > 0 then
                     [\<lparr> gi_name = grad_name g, gi_colors = gradientColors,
                        gi_source = source, gi_layerName = layerName \<rparr>]
                   else [])))"

text \<open>The source tag of the \<open>i\<close>-th entry of an effect array: \<open>base\<close>, \<open>base-2\<close>, \<open>base-3\<close>, ...\<close>

definition indexedTag :: "string \<Rightarrow> nat \<Rightarrow> string" where
  "indexedTag base i = base @ (if i > 0 then ''-'' @ decDigits (i + 1) else [])"

definition enabledEntry :: "effectEntry \<Rightarrow> bool" where
  "enabledEntry e = (fx_enabled e \<noteq> Some False)"

text \<open>\<open>effects.array?.forEach((e, i) => ...)\<close> over an array that may be missing.\<close>

definition forEachIndexed :: "(nat \<Rightarrow> 'a \<Rightarrow> 'b list) \<Rightarrow> 'a list option \<Rightarrow> 'b list" where
  "forEachIndexed f arr =
     (case arr of
        None \<Rightarrow> []
      | Some xs \<Rightarrow> concat (map (\<lambda>(i, x). f i x) (enumerate 0 xs)))"

definition arrayColors :: "string \<Rightarrow> string \<Rightarrow> effectEntry list option \<Rightarrow> extractedColor list" where
  "arrayColors layerName base arr =
     forEachIndexed
       (\<lambda>i e. if enabledEntry e \<and> fx_color e \<noteq> None
               then addColor layerName (fx_color e) (indexedTag base i) else []) arr"

definition arrayGradients :: "string \<Rightarrow> string \<Rightarrow> effectEntry list option \<Rightarrow> gradientInfo list" where
  "arrayGradients layerName base arr =
     forEachIndexed
       (\<lambda>i e. if enabledEntry e \<and> fx_gradient e \<noteq> None
               then addGradient layerName (fx_gradient e) (indexedTag base i) else []) arr"

text \<open>\<open>effects.glow?.enabled !== false && effects.glow?.color\<close> on a single effect.\<close>

definition singleColor :: "string \<Rightarrow> string \<Rightarrow> effectEntry option \<Rightarrow> extractedColor list" where
  "singleColor layerName source entry =
     (case entry of
        None \<Rightarrow> []
      | Some e \<Rightarrow>
          if enabledEntry e \<and> fx_color e \<noteq> None then addColor layerName (fx_color e) source
          else [])"

definition contentColors :: "string \<Rightarrow> vectorContent option \<Rightarrow> string \<Rightarrow> extractedColor list" where
  "contentColors layerName content source =
     (case content of
        Some (ColorContent c) \<Rightarrow> addColor layerName (Some c) source
      | _ \<Rightarrow> [])"

definition contentGradients :: "string \<Rightarrow> vectorContent option \<Rightarrow> string \<Rightarrow> gradientInfo list" where
  "contentGradients layerName content source =
     (case content of
        Some (GradientContent g) \<Rightarrow> addGradient layerName (Some g) source
      | _ \<Rightarrow> [])"

definition textFillColor :: "rawProps \<Rightarrow> color option" where
  "textFillColor p =
     (case l_text p of None \<Rightarrow> None | Some t \<Rightarrow> styleField style_fillColor (text_style t))"

definition effectColors :: "string \<Rightarrow> layerEffects option \<Rightarrow> extractedColor list" where
  "effectColors layerName effects =
     (case effects of
        None \<Rightarrow> []
      | Some fx \<Rightarrow>
          arrayColors layerName ''drop-shadow'' (fx_dropShadow fx)
          @ arrayColors layerName ''inner-shadow'' (fx_innerShadow fx)
          @ singleColor layerName ''outer-glow'' (fx_outerGlow fx)
          @ singleColor layerName ''inner-glow'' (fx_innerGlow fx)
          @ arrayColors layerName ''color-overlay'' (fx_solidFill fx)
          @ arrayColors layerName ''stroke-effect'' (fx_stroke fx)
          @ singleColor layerName ''satin'' (fx_satin fx))"

definition effectGradients :: "string \<Rightarrow> layerEffects option \<Rightarrow> gradientInfo list" where
  "effectGradients layerName effects =
     (case effects of
        None \<Rightarrow> []
      | Some fx \<Rightarrow>
          arrayGradients layerName ''stroke-gradient'' (fx_stroke fx)
          @ arrayGradients layerName ''gradient-overlay'' (fx_gradientOverlay fx))"

text \<open>
  The two arrays \<open>extractColorsFromLayer\<close> returns, each in the order of its pushes:
  the text fill, the vector fill, the vector stroke, then the effects.
\<close>

definition extractColorsFromLayer ::
    "rawProps \<Rightarrow> string \<Rightarrow> extractedColor list \<times> gradientInfo list" where
  "extractColorsFromLayer p layerName =
     ((if textFillColor p \<noteq> None then addColor layerName (textFillColor p) ''text'' else [])
        @ contentColors layerName (l_vectorFill p) ''vector-fill''
        @ contentColors layerName
            (case l_vectorStroke p of None \<Rightarrow> None | Some st \<Rightarrow> stroke_content st) ''vector-stroke''
        @ effectColors layerName (l_effects p),
      contentGradients layerName (l_vectorFill p) ''vector-fill-gradient''
        @ contentGradients layerName
            (case l_vectorStroke p of None \<Rightarrow> None | Some st \<Rightarrow> stroke_content st)
            ''vector-stroke-gradient''
        @ effectGradients layerName (l_effects p))"

subsection \<open>extractAllColors (index.ts, lines 662 to 691)\<close>

definition layerNameOr :: "rawProps \<Rightarrow> string" where
  "layerNameOr p = (case l_name p of None \<Rightarrow> ''Unnamed'' | Some n \<Rightarrow> if n = [] then ''Unnamed'' else n)"

text \<open>The inner \<open>traverse\<close>: what it appends to \<open>allColors\<close> and to \<open>allGradients\<close>.\<close>

fun traverseColors :: "layer list \<Rightarrow> extractedColor list \<times> gradientInfo list" where
  "traverseColors [] = ([], [])"
| "traverseColors (Layer p cs # rest) =
     (let own = extractColorsFromLayer p (layerNameOr p);
          below = (case cs of None \<Rightarrow> ([], []) | Some xs \<Rightarrow> traverseColors xs);
          after = traverseColors rest
      in (fst own @ fst below @ fst after, snd own @ snd below @ snd after))"

text \<open>\<open>new Set(xs)\<close> spread into an array: the elements in the order of their first occurrence.\<close>

fun setAdd :: "'a list \<Rightarrow> 'a list \<Rightarrow> 'a list" where
  "setAdd seen [] = seen"
| "setAdd seen (x # xs) = setAdd (if x \<in> set seen then seen else seen @ [x]) xs"

text \<open>
  \<open>Array.prototype.sort()\<close> with no comparator orders strings by their code units,
  lexicographically; this is the order of \<open>string\<close> here.
\<close>

definition extractAllColors :: "layer list \<Rightarrow> colorPalette" where
  "extractAllColors layers =
     (let allColors = fst (traverseColors layers);
          allGradients = snd (traverseColors layers)
      in \<lparr> solidColors = allColors,
           gradients = allGradients,
           uniqueColors = sort (setAdd [] (map ec_hex allColors)) \<rparr>)"

section \<open>Depth-limited views and the hero section\<close>

subsection \<open>limitDepth (index.ts, lines 1457 to 1484)\<close>

definition placeholder :: "nat \<Rightarrow> layerInfo" where
  "placeholder n =
     LayerInfo
       \<lparr> i_name = ''... ('' @ decDigits n @ '' children)'',
         i_type = UnknownLayer,
         i_visible = True,
         i_opacity = Fin 1,
         i_bounds = \<lparr> b_left = Fin 0, b_top = Fin 0, b_width = Fin 0, b_height = Fin 0 \<rparr>,
         i_text = None \<rparr>
       None"

text \<open>\<open>l.children?.length ? [placeholder] : undefined\<close>.\<close>

definition elided :: "layerInfo list option \<Rightarrow> layerInfo list option" where
  "elided cs =
     (case cs of
        None \<Rightarrow> None
      | Some xs \<Rightarrow> if length xs \<noteq> 0 then Some [placeholder (length xs)] else None)"

fun limitDepth :: "layerInfo list \<Rightarrow> nat \<Rightarrow> int \<Rightarrow> layerInfo list" where
  "limitDepth [] currentDepth maxDepth = []"
| "limitDepth (LayerInfo p cs # rest) currentDepth maxDepth =
     (if int currentDepth \<ge> maxDepth then LayerInfo p (elided cs)
      else LayerInfo p (case cs of
                          None \<Rightarrow> None
                        | Some xs \<Rightarrow> Some (limitDepth xs (currentDepth + 1) maxDepth)))
       # limitDepth rest currentDepth maxDepth"

subsection \<open>getTextLayers (index.ts, lines 769 to 785)\<close>


subsection \<open>The \<open>get_hero_section\<close> handler (index.ts, lines 1636 to 1708)\<close>














section \<open>Notions of the specification\<close>

text \<open>
  The definitions of this section follow the specification's words, not the source; the
  theorems below compare the source's functions with them.
\<close>

subsection \<open>Canonical hex\<close>

definition upperHexDigit :: "nat \<Rightarrow> char" where
  "upperHexDigit d = ''0123456789ABCDEF'' ! d"

text \<open>A byte as two uppercase hex digits, with a leading zero.\<close>

definition hexByte :: "nat \<Rightarrow> string" where
  "hexByte n = [upperHexDigit (n div 16), upperHexDigit (n mod 16)]"

definition hexString :: "nat \<Rightarrow> nat \<Rightarrow> nat \<Rightarrow> string" where
  "hexString r g b = ''#'' @ hexByte r @ hexByte g @ hexByte b"

text \<open>A well-formed canonical hex: \<open>#\<close> and six uppercase hex digits.\<close>

definition isCanonicalHex :: "string \<Rightarrow> bool" where
  "isCanonicalHex s =
     (length s = 7 \<and> take 1 s = ''#''
      \<and> list_all (\<lambda>c. c \<in> set ''0123456789ABCDEF'') (drop 1 s))"

text \<open>A channel clamped to \<open>[0, 255]\<close>.\<close>

fun clampByte :: "jsint \<Rightarrow> nat" where
  "clampByte (Fin i) = (if i < 0 then 0 else if 255 < i then 255 else nat i)"
| "clampByte PInf = 255"
| "clampByte _ = 0"

text \<open>
  The properties that the encoding of a colour is recognised by and read from, in the
  priority order of the six encodings; none for a colour of no supported encoding.
\<close>

definition readFields :: "color \<Rightarrow> jsnum option list" where
  "readFields c =
     (if col_fr c \<noteq> None then [col_fr c, col_fg c, col_fb c]
      else if col_r c \<noteq> None then [col_r c, col_g c, col_b c]
      else if col_k c \<noteq> None \<and> col_c c = None then [col_k c]
      else if col_h c \<noteq> None \<and> col_s c \<noteq> None \<and> col_b c \<noteq> None
        then [col_h c, col_s c, col_b c]
      else if col_l c \<noteq> None \<and> col_a c \<noteq> None then [col_l c, col_a c, col_b c]
      else if col_c c \<noteq> None \<and> col_m c \<noteq> None \<and> col_y c \<noteq> None \<and> col_k c \<noteq> None
        then [col_c c, col_m c, col_y c, col_k c]
      else [])"

text \<open>
  A property that is present and a finite number of magnitude at most 1024: this covers
  the nominal ranges of all the encodings (\<open>[0, 1]\<close>, \<open>[0, 255]\<close>, \<open>[0, 360]\<close>,
  \<open>[0, 100]\<close>, \<open>[-128, 127]\<close>).
\<close>

fun inRange :: "jsnum option \<Rightarrow> bool" where
  "inRange (Some (Fin q)) = (\<bar>q\<bar> \<le> 1024)"
| "inRange _ = False"


subsection \<open>Layers\<close>

text \<open>The type, the opacity and the text colour of the layer built from a raw layer.\<close>

definition kindOf :: "layer \<Rightarrow> layerType" where
  "kindOf l = i_type (i_props (extractLayerInfo l))"

definition opacityOf :: "layer \<Rightarrow> jsnum" where
  "opacityOf l = i_opacity (i_props (extractLayerInfo l))"


text \<open>The four predicates of the classification.\<close>

definition hasText :: "layer \<Rightarrow> bool" where
  "hasText l = (l_text (l_props l) \<noteq> None)"

definition hasChildren :: "layer \<Rightarrow> bool" where
  "hasChildren l = (\<exists>c cs. l_children l = Some (c # cs))"

definition hasRaster :: "layer \<Rightarrow> bool" where
  "hasRaster l = l_canvas (l_props l)"

definition hasVector :: "layer \<Rightarrow> bool" where
  "hasVector l = (l_vectorMask (l_props l) \<noteq> None \<or> l_vectorStroke (l_props l) \<noteq> None)"

text \<open>A raw opacity byte: an integer from 0 to 255.\<close>

fun isByte :: "jsnum \<Rightarrow> bool" where
  "isByte (Fin q) = (of_int \<lfloor>q\<rfloor> = q \<and> 0 \<le> q \<and> q \<le> 255)"
| "isByte _ = False"

fun inUnitInterval :: "jsnum \<Rightarrow> bool" where
  "inUnitInterval (Fin q) = (0 \<le> q \<and> q \<le> 1)"
| "inUnitInterval _ = False"

subsection \<open>Trees\<close>

text \<open>
  The depth of the deepest node of a forest, its top-level nodes being at depth \<open>0\<close>
  (the depth at which \<open>limitDepth\<close> starts to count).
\<close>

fun treeDepth :: "layerInfo list \<Rightarrow> nat" where
  "treeDepth [] = 0"
| "treeDepth (LayerInfo p cs # rest) =
     max (case cs of None \<Rightarrow> 0 | Some xs \<Rightarrow> if xs = [] then 0 else 1 + treeDepth xs)
         (treeDepth rest)"

text \<open>
  The nesting depth of the arrays of children: as \<open>treeDepth\<close>, but an empty array of
  children counts as a level too. On a tree with no empty array of children the two agree.
\<close>

fun nestingDepth :: "layerInfo list \<Rightarrow> nat" where
  "nestingDepth [] = 0"
| "nestingDepth (LayerInfo p cs # rest) =
     max (case cs of None \<Rightarrow> 0 | Some xs \<Rightarrow> 1 + nestingDepth xs) (nestingDepth rest)"

text \<open>No node carries an empty array of children.\<close>

fun noEmptyChildren :: "layerInfo list \<Rightarrow> bool" where
  "noEmptyChildren [] = True"
| "noEmptyChildren (LayerInfo p cs # rest) =
     ((case cs of None \<Rightarrow> True | Some xs \<Rightarrow> xs \<noteq> [] \<and> noEmptyChildren xs)
      \<and> noEmptyChildren rest)"

subsection \<open>Ordering by font size\<close>



section \<open>A sample document\<close>

text \<open>
  A small document on which the functions are run below: a group \<open>Hero Section\<close> holding
  three text layers and a button group, and a top-level vector badge.
\<close>

definition emptyProps :: rawProps where
  "emptyProps =
     \<lparr> l_name = None, l_hidden = None, l_opacity = None, l_left = None, l_top = None,
       l_right = None, l_bottom = None, l_text = None, l_canvas = False, l_vectorMask = None,
       l_vectorFill = None, l_vectorStroke = None, l_effects = None \<rparr>"

definition textLayer :: "string \<Rightarrow> rat \<Rightarrow> color \<Rightarrow> layer" where
  "textLayer n fontSize fill =
     Layer (emptyProps
              \<lparr> l_name := Some n,
                l_text := Some \<lparr> text_text = n,
                                 text_style = Some \<lparr> style_font = Some ''Inter'',
                                                      style_fontSize = Some (Fin fontSize),
                                                      style_fillColor = Some fill,
                                                      style_leading = None,
                                                      style_tracking = None \<rparr> \<rparr> \<rparr>)
           None"

definition knotA :: bezierKnot where
  "knotA = \<lparr> knot_points = [Fin 0, Fin 0, Fin (1 / 10), Fin (1 / 5), Fin (3 / 10), Fin (2 / 5)] \<rparr>"

definition knotB :: bezierKnot where
  "knotB = \<lparr> knot_points = [Fin (1 / 2), Fin (1 / 2), Fin (3 / 5), Fin (7 / 10), Fin (4 / 5),
                             Fin (9 / 10)] \<rparr>"

definition sampleMask :: vectorMask where
  "sampleMask = \<lparr> mask_paths = [\<lparr> path_open = False, path_knots = [knotA, knotB] \<rparr>] \<rparr>"

definition sampleGradient :: gradient where
  "sampleGradient =
     \<lparr> grad_name = Some ''Sunset'',
       grad_colorStops = Some [\<lparr> stop_color = Some (rgbColor 255 128 0) \<rparr>,
                               \<lparr> stop_color = Some (rgbColor 0 0 255) \<rparr>] \<rparr>"

definition submitButton :: layer where
  "submitButton =
     Layer (emptyProps \<lparr> l_name := Some ''Submit Button'',
                         l_vectorMask := Some sampleMask,
                         l_vectorFill := Some (GradientContent sampleGradient) \<rparr>)
           None"

definition buttonGroup :: layer where
  "buttonGroup = Layer (emptyProps \<lparr> l_name := Some ''Button Group'' \<rparr>) (Some [submitButton])"

definition heroGroup :: layer where
  "heroGroup =
     Layer (emptyProps \<lparr> l_name := Some ''Hero Section'' \<rparr>)
           (Some [textLayer ''Caption'' 12 (rgbColor 26 26 26),
                  textLayer ''Title'' 64 (frgbColor 1 0 0),
                  textLayer ''Subtitle'' 24 (rgbColor 26 26 26),
                  buttonGroup])"

definition badge :: layer where
  "badge =
     Layer (emptyProps \<lparr> l_name := Some ''Badge'',
                         l_opacity := Some (Fin 128),
                         l_vectorMask := Some sampleMask,
                         l_vectorFill := Some (ColorContent (rgbColor 0 128 255)) \<rparr>)
           None"

definition sampleLayers :: "layer list" where
  "sampleLayers = [heroGroup, badge]"

text \<open>The part of \<open>parsePsdFile\<close> that builds the tree: \<open>psd.children?.map(extractLayerInfo) || []\<close>.\<close>

definition buildLayers :: "layer list option \<Rightarrow> layerInfo list" where
  "buildLayers cs = (case cs of None \<Rightarrow> [] | Some xs \<Rightarrow> map extractLayerInfo xs)"


section \<open>Verification\<close>

subsection \<open>Overflow and magnitudes\<close>

lemma overflowBound_large: "18446744073709551616 < overflowBound"
  by (simp add: overflowBound_def)

lemma overflowBound_pow: "(2::rat) ^ 1000 < overflowBound"
  by (simp add: overflowBound_def)

lemma overflow_small: "\<bar>q\<bar> \<le> 18446744073709551616 \<Longrightarrow> overflow q = Fin q"
  using overflowBound_large by (auto simp: overflow_def)

lemma overflow_code [code]:
  "overflow q =
     (if \<bar>q\<bar> \<le> 18446744073709551616 then Fin q
      else if overflowBound \<le> q then PInf else if q \<le> - overflowBound then NInf else Fin q)"
  by (simp add: overflow_small) (simp add: overflow_def)

lemma overflow_pow:
  assumes "\<bar>q\<bar> \<le> 2 ^ n" "n \<le> 1000"
  shows "overflow q = Fin q"
proof -
  have "(2::rat) ^ n \<le> 2 ^ 1000" using assms(2) by (intro power_increasing) simp_all
  with assms(1) overflowBound_pow have "\<bar>q\<bar> < overflowBound" by linarith
  then show ?thesis by (auto simp: overflow_def)
qed


lemma mag_Fin: "\<bar>c\<bar> \<le> 2 ^ n \<Longrightarrow> mag n (Fin c)"
  by simp

lemma mag_mono:
  assumes "mag m a" "m \<le> n"
  shows "mag n a"
proof -
  from assms(1) obtain q where a: "a = Fin q" "\<bar>q\<bar> \<le> 2 ^ m" by (cases a) auto
  have "(2::rat) ^ m \<le> 2 ^ n" using assms(2) by (intro power_increasing) simp_all
  with a(2) have "\<bar>q\<bar> \<le> 2 ^ n" by linarith
  with a(1) show ?thesis by simp
qed

lemma mag_mul:
  assumes "mag m a" "mag n b" "m + n \<le> 1000"
  shows "mag (m + n) (jmul a b)"
proof -
  from assms(1) obtain p where a: "a = Fin p" "\<bar>p\<bar> \<le> 2 ^ m" by (cases a) auto
  from assms(2) obtain q where b: "b = Fin q" "\<bar>q\<bar> \<le> 2 ^ n" by (cases b) auto
  have "\<bar>p * q\<bar> \<le> 2 ^ m * 2 ^ n"
    unfolding abs_mult using a(2) b(2) by (intro mult_mono) simp_all
  then have le: "\<bar>p * q\<bar> \<le> 2 ^ (m + n)" by (simp add: power_add)
  then have "overflow (p * q) = Fin (p * q)" using assms(3) by (rule overflow_pow)
  with a b le show ?thesis by simp
qed

lemma mag_add:
  assumes "mag m a" "mag m b" "m < 1000"
  shows "mag (Suc m) (jadd a b)"
proof -
  from assms(1) obtain p where a: "a = Fin p" "\<bar>p\<bar> \<le> 2 ^ m" by (cases a) auto
  from assms(2) obtain q where b: "b = Fin q" "\<bar>q\<bar> \<le> 2 ^ m" by (cases b) auto
  have "\<bar>p + q\<bar> \<le> \<bar>p\<bar> + \<bar>q\<bar>" by (rule abs_triangle_ineq)
  with a(2) b(2) have le: "\<bar>p + q\<bar> \<le> 2 ^ Suc m" by simp
  moreover from assms(3) have "Suc m \<le> 1000" by simp
  ultimately have "overflow (p + q) = Fin (p + q)" by (rule overflow_pow)
  with a b le show ?thesis by simp
qed

lemma mag_neg: "mag m a \<Longrightarrow> mag m (jneg a)"
  by (cases a) simp_all

lemma mag_sub: "mag m a \<Longrightarrow> mag m b \<Longrightarrow> m < 1000 \<Longrightarrow> mag (Suc m) (jsub a b)"
  unfolding jsub_def by (intro mag_add mag_neg)

lemma mag_div:
  assumes "mag m a" "1 \<le> c" "m \<le> 1000"
  shows "mag m (jdiv a (Fin c))"
proof -
  from assms(1) obtain p where a: "a = Fin p" "\<bar>p\<bar> \<le> 2 ^ m" by (cases a) auto
  have "\<bar>p / c\<bar> = \<bar>p\<bar> / c" using assms(2) by simp
  also have "\<dots> \<le> \<bar>p\<bar>" using assms(2) by (simp add: divide_le_eq mult_le_cancel_left1)
  finally have le: "\<bar>p / c\<bar> \<le> 2 ^ m" using a(2) by simp
  then have "overflow (p / c) = Fin (p / c)" using assms(3) by (rule overflow_pow)
  with a le assms(2) show ?thesis by simp
qed

lemma mag_floor: "mag m a \<Longrightarrow> mag (Suc m) (toNum (mathFloor a))"
proof (cases a)
  case (Fin q)
  assume "mag m a"
  with Fin have q: "\<bar>q\<bar> \<le> 2 ^ m" by simp
  have "\<bar>(of_int \<lfloor>q\<rfloor> :: rat)\<bar> \<le> \<bar>q\<bar> + 1" by linarith
  moreover have "(1::rat) \<le> 2 ^ m" by simp
  ultimately have "\<bar>(of_int \<lfloor>q\<rfloor> :: rat)\<bar> \<le> 2 * 2 ^ m" using q by linarith
  with Fin show ?thesis by simp
qed simp_all

lemma mag_round: "mag m a \<Longrightarrow> \<exists>i. mathRound a = Fin i"
  by (cases a) simp_all

lemma mag_scale_round:
  assumes "mag m a" "m \<le> 900"
  shows "\<exists>i. mathRound (jmul a (Fin 255)) = Fin i"
proof -
  have "mag 8 (Fin 255)" by simp
  with assms have "mag (m + 8) (jmul a (Fin 255))" by (intro mag_mul) simp_all
  then show ?thesis by (rule mag_round)
qed

lemma mag_clampRound:
  assumes "mag m a" "m \<le> 900"
  shows "\<exists>i. clampRound a = Fin i"
proof -
  have "mag 8 (Fin 255)" by simp
  with assms have "mag (m + 8) (jmul a (Fin 255))" by (intro mag_mul) simp_all
  then obtain q where "jmul a (Fin 255) = Fin q" by (cases "jmul a (Fin 255)") auto
  then show ?thesis by (simp add: clampRound_def)
qed

lemma inRange_mag: "inRange f \<Longrightarrow> mag 10 (num f)"
proof (cases f)
  case (Some x)
  assume "inRange f"
  with Some show ?thesis by (cases x) simp_all
qed simp

subsection \<open>Evaluating number formatting\<close>

lemma floor_rat_numeral_div: "\<lfloor>numeral a / numeral b :: rat\<rfloor> = numeral a div numeral b"
  by (metis floor_divide_of_int_eq of_int_numeral)

lemma floor_rat_one_div: "\<lfloor>1 / numeral b :: rat\<rfloor> = 1 div numeral b"
  by (metis floor_divide_of_int_eq of_int_1 of_int_numeral)

lemma floor_rat_minus_numeral_div:
  "\<lfloor>- (numeral a / numeral b) :: rat\<rfloor> = - numeral a div numeral b"
  by (metis divide_minus_left floor_divide_of_int_eq of_int_neg_numeral of_int_numeral)

lemmas decDigits_numeral = decDigits.simps[of "numeral k"] for k

lemma decDigits_0: "decDigits 0 = ''0''"
  by (simp add: decDigits.simps hexDigit_def)

lemma decDigits_1: "decDigits (Suc 0) = ''1''"
  by (simp add: decDigits.simps hexDigit_def)

lemmas evalDigits =
  floor_rat_numeral_div floor_rat_one_div floor_rat_minus_numeral_div
  decDigits_numeral decDigits_0 decDigits_1 hexDigit_def

subsection \<open>The colour normalizer\<close>

lemma upperChar_hexDigit: "d < 16 \<Longrightarrow> upperChar (hexDigit d) = upperHexDigit d"
proof -
  assume "d < 16"
  then have "d = 0 \<or> d = 1 \<or> d = 2 \<or> d = 3 \<or> d = 4 \<or> d = 5 \<or> d = 6 \<or> d = 7 \<or> d = 8 \<or> d = 9
     \<or> d = 10 \<or> d = 11 \<or> d = 12 \<or> d = 13 \<or> d = 14 \<or> d = 15" by arith
  then show ?thesis
    by (elim disjE; hypsubst; code_simp)
qed

lemma upperChar_zero: "upperChar CHR ''0'' = upperHexDigit 0"
  by code_simp

lemma hexDigits_small: "n < 16 \<Longrightarrow> hexDigits n = [hexDigit n]"
  by (subst hexDigits.simps) simp

lemma hexDigits_byte:
  assumes "16 \<le> n" "n \<le> 255"
  shows "hexDigits n = [hexDigit (n div 16), hexDigit (n mod 16)]"
proof -
  from assms have "n div 16 < 16" by simp
  then have "hexDigits (n div 16) = [hexDigit (n div 16)]" by (rule hexDigits_small)
  with assms show ?thesis by (subst hexDigits.simps) simp
qed

text \<open>Formatting a byte as the source does gives its two uppercase hex digits.\<close>

lemma hexByte_code:
  assumes "n \<le> 255"
  shows "toUpperCase (padStart2 (hexDigits n)) = hexByte n"
proof (cases "n < 16")
  case True
  then show ?thesis
    by (simp add: hexDigits_small toUpperCase_def padStart2_def hexByte_def upperChar_hexDigit
        upperChar_zero)
next
  case False
  with assms have d: "n div 16 < 16" by simp
  have m: "n mod 16 < 16" by simp
  from False assms have "hexDigits n = [hexDigit (n div 16), hexDigit (n mod 16)]"
    by (simp add: hexDigits_byte)
  then show ?thesis
    using d m by (simp add: toUpperCase_def padStart2_def hexByte_def upperChar_hexDigit)
qed

lemma clamp255_clampByte:
  "r \<noteq> NaN \<Longrightarrow> clamp255 r = Fin (int (clampByte r)) \<and> clampByte r \<le> 255"
  by (cases r) (auto simp: clamp255_def)

lemma upperHexDigit_mem: "d < 16 \<Longrightarrow> upperHexDigit d \<in> set ''0123456789ABCDEF''"
  unfolding upperHexDigit_def by (rule nth_mem) simp

lemma isCanonicalHex_hexString:
  assumes "r \<le> 255" "g \<le> 255" "b \<le> 255"
  shows "isCanonicalHex (hexString r g b)"
proof -
  have "x div 16 < 16" if "x \<le> 255" for x :: nat using that by simp
  with assms have "r div 16 < 16" "g div 16 < 16" "b div 16 < 16" by blast+
  moreover have "r mod 16 < 16" "g mod 16 < 16" "b mod 16 < 16" by simp_all
  ultimately show ?thesis
    unfolding isCanonicalHex_def hexString_def hexByte_def
    by (simp add: upperHexDigit_mem del: set_simps)
qed

lemma toUpperCase_hash: "toUpperCase (CHR ''#'' # s) = CHR ''#'' # toUpperCase s"
  by (simp add: toUpperCase_def upperChar_def)

lemma toUpperCase_append: "toUpperCase (s @ t) = toUpperCase s @ toUpperCase t"
  by (simp add: toUpperCase_def)

lemma anyColorToHex_hexString:
  assumes "channels c = Some (r, g, b)" "r \<noteq> NaN" "g \<noteq> NaN" "b \<noteq> NaN"
  shows "anyColorToHex (Some c) = Some (hexString (clampByte r) (clampByte g) (clampByte b))"
  using assms clamp255_clampByte[of r] clamp255_clampByte[of g] clamp255_clampByte[of b]
  by (simp add: anyColorToHex_def hexString_def toUpperCase_hash toUpperCase_append hexByte_code)

lemma mag_one: "mag 10 (Fin 1)"
  by simp

text \<open>No channel of the HSB branch is \<open>NaN\<close> on fields of ordinary magnitude.\<close>

lemma hsbChannels_finite:
  assumes "mag 10 ch" "mag 10 cs" "mag 10 cb"
  shows "\<exists>r g b. hsbChannels ch cs cb = (Fin r, Fin g, Fin b)"
proof -
  define h6 where "h6 = jmul (jdiv ch (Fin 360)) (Fin 6)"
  define f where "f = jsub h6 (toNum (mathFloor h6))"
  define p where "p = jmul cb (jsub (Fin 1) cs)"
  define q where "q = jmul cb (jsub (Fin 1) (jmul f cs))"
  define t where "t = jmul cb (jsub (Fin 1) (jmul (jsub (Fin 1) f) cs))"
  have "mag 10 (jdiv ch (Fin 360))" using assms(1) by (intro mag_div) simp_all
  moreover have "mag 3 (Fin 6)" by simp
  ultimately have h6: "mag 13 h6" unfolding h6_def using mag_mul[of 10 _ 3] by simp
  then have "mag 14 (toNum (mathFloor h6))" using mag_floor[of 13] by simp
  moreover from h6 have "mag 14 h6" by (rule mag_mono) simp
  ultimately have f: "mag 15 f" unfolding f_def using mag_sub[of 14] by simp
  have one_s: "mag 11 (jsub (Fin 1) cs)" using mag_sub[OF mag_one assms(2)] by simp
  have mp: "mag 21 p" unfolding p_def using mag_mul[OF assms(3) one_s] by simp
  have "mag 25 (jmul f cs)" using mag_mul[OF f assms(2)] by simp
  moreover have "mag 25 (Fin 1)" by simp
  ultimately have "mag 26 (jsub (Fin 1) (jmul f cs))" using mag_sub[of 25] by simp
  then have mq: "mag 36 q" unfolding q_def using mag_mul[OF assms(3), of 26] by simp
  have "mag 15 (Fin 1)" by simp
  with f have "mag 16 (jsub (Fin 1) f)" using mag_sub[of 15] by simp
  then have "mag 26 (jmul (jsub (Fin 1) f) cs)" using mag_mul[of 16 _ 10, OF _ assms(2)] by simp
  moreover have "mag 26 (Fin 1)" by simp
  ultimately have "mag 27 (jsub (Fin 1) (jmul (jsub (Fin 1) f) cs))" using mag_sub[of 26] by simp
  then have mt: "mag 37 t" unfolding t_def using mag_mul[OF assms(3), of 27] by simp
  obtain rv where rv: "mathRound (jmul cb (Fin 255)) = Fin rv"
    using mag_scale_round[OF assms(3)] by auto
  obtain rp where rp: "mathRound (jmul p (Fin 255)) = Fin rp"
    using mag_scale_round[OF mp] by auto
  obtain rq where rq: "mathRound (jmul q (Fin 255)) = Fin rq"
    using mag_scale_round[OF mq] by auto
  obtain rt where rt: "mathRound (jmul t (Fin 255)) = Fin rt"
    using mag_scale_round[OF mt] by auto
  show ?thesis
    unfolding hsbChannels_def Let_def
    unfolding h6_def[symmetric] f_def[symmetric] p_def[symmetric] q_def[symmetric] t_def[symmetric]
    by (simp add: rv rp rq rt)
qed

lemma labCorrect_mag:
  assumes "mag 12 x"
  shows "mag 36 (labCorrect x)"
proof -
  have "mag 24 (jmul x x)" using mag_mul[OF assms assms] by simp
  then have cube: "mag 36 (jmul (jmul x x) x)" using mag_mul[of 24 _ 12, OF _ assms] by simp
  have "jdiv (Fin 16) (Fin 116) = Fin (16 / 116)" by (simp add: overflow_small)
  moreover have "mag 12 (Fin (16 / 116))" by simp
  ultimately have "mag 13 (jsub x (jdiv (Fin 16) (Fin 116)))" using mag_sub[OF assms, of "Fin (16 / 116)"] by simp
  then have "mag 13 (jdiv (jsub x (jdiv (Fin 16) (Fin 116))) (Fin (7787 / 1000)))"
    by (intro mag_div) simp_all
  then have lin: "mag 36 (jdiv (jsub x (jdiv (Fin 16) (Fin 116))) (Fin (7787 / 1000)))"
    by (rule mag_mono) simp
  from cube lin show ?thesis by (simp add: labCorrect_def Let_def)
qed

lemma lab_row:
  assumes "mag 37 xr" "mag 37 yr" "mag 37 zr" "\<bar>a\<bar> \<le> 4" "\<bar>b\<bar> \<le> 4" "\<bar>c\<bar> \<le> 4"
  shows "\<exists>i. clampRound (jadd (jadd (jmul xr (Fin a)) (jmul yr (Fin b))) (jmul zr (Fin c))) = Fin i"
proof -
  have "mag 2 (Fin a)" "mag 2 (Fin b)" "mag 2 (Fin c)" using assms(4-6) by simp_all
  with assms(1-3) have "mag 39 (jmul xr (Fin a))" "mag 39 (jmul yr (Fin b))" "mag 39 (jmul zr (Fin c))"
    using mag_mul[of 37 _ 2] by simp_all
  then have "mag 40 (jadd (jmul xr (Fin a)) (jmul yr (Fin b)))" "mag 40 (jmul zr (Fin c))"
    using mag_add[of 39] mag_mono[of 39 _ 40] by simp_all
  then have "mag 41 (jadd (jadd (jmul xr (Fin a)) (jmul yr (Fin b))) (jmul zr (Fin c)))"
    using mag_add[of 40] by simp
  then show ?thesis by (rule mag_clampRound) simp
qed

text \<open>No channel of the Lab branch is \<open>NaN\<close> on fields of ordinary magnitude.\<close>

lemma labChannels_finite:
  assumes "mag 10 cl" "mag 10 ca" "mag 10 cb"
  shows "\<exists>r g b. labChannels cl ca cb = (Fin r, Fin g, Fin b)"
proof -
  define y where "y = jdiv (jadd cl (Fin 16)) (Fin 116)"
  define x where "x = jadd (jdiv ca (Fin 500)) y"
  define z where "z = jsub y (jdiv cb (Fin 200))"
  define xr where "xr = jmul (labCorrect x) (Fin (95047 / 100000))"
  define yr where "yr = jmul (labCorrect y) (Fin 1)"
  define zr where "zr = jmul (labCorrect z) (Fin (108883 / 100000))"
  have "mag 10 (Fin 16)" by simp
  with assms(1) have "mag 11 (jadd cl (Fin 16))" using mag_add[of 10] by simp
  then have y: "mag 11 y" unfolding y_def by (intro mag_div) simp_all
  have "mag 10 (jdiv ca (Fin 500))" using assms(2) by (intro mag_div) simp_all
  then have "mag 11 (jdiv ca (Fin 500))" by (rule mag_mono) simp
  with y have x: "mag 12 x" unfolding x_def using mag_add[of 11] by simp
  have "mag 10 (jdiv cb (Fin 200))" using assms(3) by (intro mag_div) simp_all
  then have "mag 11 (jdiv cb (Fin 200))" by (rule mag_mono) simp
  with y have z: "mag 12 z" unfolding z_def using mag_sub[of 11] by simp
  from y have y12: "mag 12 y" by (rule mag_mono) simp
  have c: "mag 1 (Fin (95047 / 100000))" "mag 1 (Fin 1)" "mag 1 (Fin (108883 / 100000))" by simp_all
  have xr: "mag 37 xr" unfolding xr_def using mag_mul[OF labCorrect_mag[OF x] c(1)] by simp
  have yr: "mag 37 yr" unfolding yr_def using mag_mul[OF labCorrect_mag[OF y12] c(2)] by simp
  have zr: "mag 37 zr" unfolding zr_def using mag_mul[OF labCorrect_mag[OF z] c(3)] by simp
  obtain r where r: "clampRound (jadd (jadd (jmul xr (Fin (32406 / 10000))) (jmul yr (Fin (- (15372 / 10000)))))
      (jmul zr (Fin (- (4986 / 10000))))) = Fin r"
    using lab_row[OF xr yr zr, of "32406 / 10000" "- (15372 / 10000)" "- (4986 / 10000)"] by auto
  obtain g where g: "clampRound (jadd (jadd (jmul xr (Fin (- (9689 / 10000)))) (jmul yr (Fin (18758 / 10000))))
      (jmul zr (Fin (415 / 10000)))) = Fin g"
    using lab_row[OF xr yr zr, of "- (9689 / 10000)" "18758 / 10000" "415 / 10000"] by auto
  obtain b where b: "clampRound (jadd (jadd (jmul xr (Fin (557 / 10000))) (jmul yr (Fin (- (204 / 1000)))))
      (jmul zr (Fin (1057 / 1000)))) = Fin b"
    using lab_row[OF xr yr zr, of "557 / 10000" "- (204 / 1000)" "1057 / 1000"] by auto
  show ?thesis
    unfolding labChannels_def Let_def
    unfolding y_def[symmetric] x_def[symmetric] z_def[symmetric]
    unfolding xr_def[symmetric] yr_def[symmetric] zr_def[symmetric]
    unfolding r g b by blast
qed

lemma readFields_channels: "readFields c = [] \<longleftrightarrow> channels c = None"
  by (simp add: readFields_def channels_def Let_def)

lemma gray_finite:
  assumes "mag 10 k"
  shows "\<exists>i. mathRound (jmul (jsub (Fin 1) k) (Fin 255)) = Fin i"
proof -
  have "mag 11 (jsub (Fin 1) k)" using mag_sub[OF mag_one assms] by simp
  then show ?thesis by (rule mag_scale_round) simp
qed

lemma cmyk_finite:
  assumes "mag 10 c" "mag 10 k"
  shows "\<exists>i. mathRound (jmul (jmul (Fin 255) (jsub (Fin 1) c)) (jsub (Fin 1) k)) = Fin i"
proof -
  have c: "mag 11 (jsub (Fin 1) c)" using mag_sub[OF mag_one assms(1)] by simp
  have k: "mag 11 (jsub (Fin 1) k)" using mag_sub[OF mag_one assms(2)] by simp
  have "mag 8 (Fin 255)" by simp
  then have "mag 19 (jmul (Fin 255) (jsub (Fin 1) c))" using mag_mul[of 8 _ 11, OF _ c] by simp
  then have "mag 30 (jmul (jmul (Fin 255) (jsub (Fin 1) c)) (jsub (Fin 1) k))"
    using mag_mul[of 19 _ 11, OF _ k] by simp
  then show ?thesis by (rule mag_round)
qed

text \<open>
  On a colour whose fields, as far as its encoding reads them, are finite and of
  magnitude at most 1024, every one of the six branches computes three finite channels.
\<close>

lemma channels_finite:
  assumes rng: "list_all inRange (readFields c)" and enc: "readFields c \<noteq> []"
  shows "\<exists>r g b. channels c = Some (Fin r, Fin g, Fin b)"
proof -
  consider (frgb) "col_fr c \<noteq> None"
    | (rgb) "col_fr c = None" "col_r c \<noteq> None"
    | (gray) "col_fr c = None" "col_r c = None" "col_k c \<noteq> None \<and> col_c c = None"
    | (hsb) "col_fr c = None" "col_r c = None" "\<not> (col_k c \<noteq> None \<and> col_c c = None)"
        "col_h c \<noteq> None \<and> col_s c \<noteq> None \<and> col_b c \<noteq> None"
    | (lab) "col_fr c = None" "col_r c = None" "\<not> (col_k c \<noteq> None \<and> col_c c = None)"
        "\<not> (col_h c \<noteq> None \<and> col_s c \<noteq> None \<and> col_b c \<noteq> None)"
        "col_l c \<noteq> None \<and> col_a c \<noteq> None"
    | (cmyk) "col_fr c = None" "col_r c = None" "\<not> (col_k c \<noteq> None \<and> col_c c = None)"
        "\<not> (col_h c \<noteq> None \<and> col_s c \<noteq> None \<and> col_b c \<noteq> None)"
        "\<not> (col_l c \<noteq> None \<and> col_a c \<noteq> None)"
        "col_c c \<noteq> None \<and> col_m c \<noteq> None \<and> col_y c \<noteq> None \<and> col_k c \<noteq> None"
    | (none) "col_fr c = None" "col_r c = None" "\<not> (col_k c \<noteq> None \<and> col_c c = None)"
        "\<not> (col_h c \<noteq> None \<and> col_s c \<noteq> None \<and> col_b c \<noteq> None)"
        "\<not> (col_l c \<noteq> None \<and> col_a c \<noteq> None)"
        "\<not> (col_c c \<noteq> None \<and> col_m c \<noteq> None \<and> col_y c \<noteq> None \<and> col_k c \<noteq> None)"
    by blast
  then show ?thesis
  proof cases
    case frgb
    then have "readFields c = [col_fr c, col_fg c, col_fb c]" by (auto simp add: readFields_def simp del: not_None_eq)
    with rng have m: "mag 10 (num (col_fr c))" "mag 10 (num (col_fg c))" "mag 10 (num (col_fb c))"
      by (simp_all add: inRange_mag)
    from frgb have "channels c = Some (mathRound (jmul (num (col_fr c)) (Fin 255)),
        mathRound (jmul (num (col_fg c)) (Fin 255)), mathRound (jmul (num (col_fb c)) (Fin 255)))"
      by (auto simp add: channels_def simp del: not_None_eq)
    with mag_scale_round[OF m(1)] mag_scale_round[OF m(2)] mag_scale_round[OF m(3)]
    show ?thesis by auto
  next
    case rgb
    then have "readFields c = [col_r c, col_g c, col_b c]" by (auto simp add: readFields_def simp del: not_None_eq)
    with rng have m: "mag 10 (num (col_r c))" "mag 10 (num (col_g c))" "mag 10 (num (col_b c))"
      by (simp_all add: inRange_mag)
    from rgb have "channels c
        = Some (mathRound (num (col_r c)), mathRound (num (col_g c)), mathRound (num (col_b c)))"
      by (auto simp add: channels_def simp del: not_None_eq)
    with mag_round[OF m(1)] mag_round[OF m(2)] mag_round[OF m(3)] show ?thesis by auto
  next
    case gray
    then have "readFields c = [col_k c]" by (auto simp add: readFields_def simp del: not_None_eq)
    with rng have m: "mag 10 (num (col_k c))" by (simp add: inRange_mag)
    from gray have "channels c = Some (mathRound (jmul (jsub (Fin 1) (num (col_k c))) (Fin 255)),
        mathRound (jmul (jsub (Fin 1) (num (col_k c))) (Fin 255)),
        mathRound (jmul (jsub (Fin 1) (num (col_k c))) (Fin 255)))"
      by (simp add: channels_def Let_def del: not_None_eq)
    with gray_finite[OF m] show ?thesis by auto
  next
    case hsb
    then have "readFields c = [col_h c, col_s c, col_b c]" by (auto simp add: readFields_def simp del: not_None_eq)
    with rng have m: "mag 10 (num (col_h c))" "mag 10 (num (col_s c))" "mag 10 (num (col_b c))"
      by (simp_all add: inRange_mag)
    from hsb have "channels c = Some (hsbChannels (num (col_h c)) (num (col_s c)) (num (col_b c)))"
      by (auto simp add: channels_def simp del: not_None_eq)
    with hsbChannels_finite[OF m] show ?thesis by auto
  next
    case lab
    then have "readFields c = [col_l c, col_a c, col_b c]" by (auto simp add: readFields_def simp del: not_None_eq)
    with rng have m: "mag 10 (num (col_l c))" "mag 10 (num (col_a c))" "mag 10 (num (col_b c))"
      by (simp_all add: inRange_mag)
    from lab have "channels c = Some (labChannels (num (col_l c)) (num (col_a c)) (num (col_b c)))"
      by (auto simp add: channels_def simp del: not_None_eq)
    with labChannels_finite[OF m] show ?thesis by auto
  next
    case cmyk
    then have "readFields c = [col_c c, col_m c, col_y c, col_k c]" by (auto simp add: readFields_def simp del: not_None_eq)
    with rng have m: "mag 10 (num (col_c c))" "mag 10 (num (col_m c))" "mag 10 (num (col_y c))"
        "mag 10 (num (col_k c))"
      by (simp_all add: inRange_mag)
    from cmyk have "channels c
        = Some (mathRound (jmul (jmul (Fin 255) (jsub (Fin 1) (num (col_c c)))) (jsub (Fin 1) (num (col_k c)))),
                mathRound (jmul (jmul (Fin 255) (jsub (Fin 1) (num (col_m c)))) (jsub (Fin 1) (num (col_k c)))),
                mathRound (jmul (jmul (Fin 255) (jsub (Fin 1) (num (col_y c)))) (jsub (Fin 1) (num (col_k c)))))"
      by (auto simp add: channels_def simp del: not_None_eq)
    with cmyk_finite[OF m(1) m(4)] cmyk_finite[OF m(2) m(4)] cmyk_finite[OF m(3) m(4)]
    show ?thesis by auto
  next
    case none
    then have "readFields c = []" by (auto simp add: readFields_def simp del: not_None_eq)
    with enc show ?thesis by simp
  qed
qed

text \<open>
  C1 (amended). For every raw colour whose fields, as far as its encoding reads them, are
  finite numbers of magnitude at most 1024 (which covers the nominal ranges of all six
  encodings), \<open>anyColorToHex\<close> returns the canonical hex of the three channels, each
  clamped to \<open>[0, 255]\<close> on its own: \<open>#\<close> and six uppercase hex digits. The same holds
  whenever none of the three channel values it computes is \<open>NaN\<close>. It returns none for
  a missing colour and for a colour of no supported encoding. In particular
  \<open>{r:26, g:26, b:26}\<close> gives \<open>#1A1A1A\<close>, \<open>{fr:1, fg:0, fb:0}\<close> gives \<open>#FF0000\<close> and
  the CMYK colour \<open>{c:0, m:0, y:0, k:1}\<close> gives \<open>#000000\<close>.
\<close>

theorem anyColorToHex_canonical:
  "anyColorToHex None = None \<and>
   (readFields c = [] \<longrightarrow> anyColorToHex (Some c) = None) \<and>
   (readFields c \<noteq> [] \<and> list_all inRange (readFields c) \<longrightarrow>
      (\<exists>ri gi bi. channels c = Some (Fin ri, Fin gi, Fin bi) \<and>
         anyColorToHex (Some c)
           = Some (hexString (clampByte (Fin ri)) (clampByte (Fin gi)) (clampByte (Fin bi))) \<and>
         isCanonicalHex (hexString (clampByte (Fin ri)) (clampByte (Fin gi)) (clampByte (Fin bi))))) \<and>
   (channels c = Some (r, g, b) \<and> r \<noteq> NaN \<and> g \<noteq> NaN \<and> b \<noteq> NaN \<longrightarrow>
      anyColorToHex (Some c) = Some (hexString (clampByte r) (clampByte g) (clampByte b)) \<and>
      isCanonicalHex (hexString (clampByte r) (clampByte g) (clampByte b)) \<and>
      clampByte r \<le> 255 \<and> clampByte g \<le> 255 \<and> clampByte b \<le> 255) \<and>
   anyColorToHex (Some (rgbColor 26 26 26)) = Some ''#1A1A1A'' \<and>
   anyColorToHex (Some (frgbColor 1 0 0)) = Some ''#FF0000'' \<and>
   anyColorToHex (Some (cmykColor 0 0 0 1)) = Some ''#000000''"
proof -
  have none: "anyColorToHex None = None" by (simp add: anyColorToHex_def)
  have absent: "readFields c = [] \<longrightarrow> anyColorToHex (Some c) = None"
    by (simp add: readFields_channels anyColorToHex_def)
  have some: "anyColorToHex (Some c) = Some (hexString (clampByte r) (clampByte g) (clampByte b)) \<and>
      isCanonicalHex (hexString (clampByte r) (clampByte g) (clampByte b)) \<and>
      clampByte r \<le> 255 \<and> clampByte g \<le> 255 \<and> clampByte b \<le> 255"
    if "channels c = Some (r, g, b)" "r \<noteq> NaN" "g \<noteq> NaN" "b \<noteq> NaN" for r g b
    using that anyColorToHex_hexString[of c r g b] clamp255_clampByte[of r] clamp255_clampByte[of g]
      clamp255_clampByte[of b] isCanonicalHex_hexString[of "clampByte r" "clampByte g" "clampByte b"]
    by blast
  have ranged: "\<exists>ri gi bi. channels c = Some (Fin ri, Fin gi, Fin bi) \<and>
         anyColorToHex (Some c)
           = Some (hexString (clampByte (Fin ri)) (clampByte (Fin gi)) (clampByte (Fin bi))) \<and>
         isCanonicalHex (hexString (clampByte (Fin ri)) (clampByte (Fin gi)) (clampByte (Fin bi)))"
    if "readFields c \<noteq> []" "list_all inRange (readFields c)"
  proof -
    from that obtain ri gi bi where ch: "channels c = Some (Fin ri, Fin gi, Fin bi)"
      using channels_finite[of c] by blast
    with some[of "Fin ri" "Fin gi" "Fin bi"] show ?thesis by blast
  qed
  have e1: "anyColorToHex (Some (rgbColor 26 26 26)) = Some ''#1A1A1A''" by code_simp
  have e2: "anyColorToHex (Some (frgbColor 1 0 0)) = Some ''#FF0000''" by code_simp
  have e3: "anyColorToHex (Some (cmykColor 0 0 0 1)) = Some ''#000000''" by code_simp
  from none absent some[of r g b] ranged e1 e2 e3 show ?thesis by blast
qed

lemma lab_sample_channels: "channels (labColor 50 20 10) = Some (Fin 86, Fin 37, Fin 34)"
  by (simp add: channels_def labColor_def noColor_def labChannels_def labCorrect_def
      clampRound_def jsub_def overflow_small floor_rat_numeral_div Let_def)

lemma hsb_sample_channels:
  "channels (hsbColor 210 (1 / 2) (4 / 5)) = Some (Fin 102, Fin 153, Fin 204)"
  by (simp add: channels_def hsbColor_def noColor_def hsbChannels_def jsub_def overflow_small
      floor_rat_numeral_div Let_def)

theorem anyColorToHex_canonical_witness:
  "list_all inRange (readFields (labColor 50 20 10)) \<and>
   anyColorToHex (Some (labColor 50 20 10)) = Some ''#562522'' \<and> isCanonicalHex ''#562522'' \<and>
   list_all inRange (readFields (hsbColor 210 (1 / 2) (4 / 5))) \<and>
   anyColorToHex (Some (hsbColor 210 (1 / 2) (4 / 5))) = Some ''#6699CC'' \<and>
   isCanonicalHex ''#6699CC'' \<and>
   anyColorToHex (Some (grayColor (1 / 2))) = Some ''#808080'' \<and> isCanonicalHex ''#808080''"
proof -
  have lf: "readFields (labColor 50 20 10) \<noteq> [] \<and> list_all inRange (readFields (labColor 50 20 10))"
    by (simp add: readFields_def labColor_def noColor_def)
  have lh: "hexString (clampByte (Fin 86)) (clampByte (Fin 37)) (clampByte (Fin 34)) = ''#562522''"
    by code_simp
  from lf lab_sample_channels anyColorToHex_canonical[of "labColor 50 20 10"]
  have lab: "anyColorToHex (Some (labColor 50 20 10)) = Some ''#562522'' \<and> isCanonicalHex ''#562522''"
    unfolding lh[symmetric] by auto
  have hf: "readFields (hsbColor 210 (1 / 2) (4 / 5)) \<noteq> [] \<and>
      list_all inRange (readFields (hsbColor 210 (1 / 2) (4 / 5)))"
    by (simp add: readFields_def hsbColor_def noColor_def)
  have hh: "hexString (clampByte (Fin 102)) (clampByte (Fin 153)) (clampByte (Fin 204)) = ''#6699CC''"
    by code_simp
  from hf hsb_sample_channels anyColorToHex_canonical[of "hsbColor 210 (1 / 2) (4 / 5)"]
  have hsb: "anyColorToHex (Some (hsbColor 210 (1 / 2) (4 / 5))) = Some ''#6699CC'' \<and>
      isCanonicalHex ''#6699CC''"
    unfolding hh[symmetric] by auto
  have gc: "channels (grayColor (1 / 2)) = Some (Fin 128, Fin 128, Fin 128)" by code_simp
  have gh: "hexString (clampByte (Fin 128)) (clampByte (Fin 128)) (clampByte (Fin 128)) = ''#808080''"
    by code_simp
  from gc anyColorToHex_canonical[of "grayColor (1 / 2)" "Fin 128" "Fin 128" "Fin 128"]
  have gray: "anyColorToHex (Some (grayColor (1 / 2))) = Some ''#808080'' \<and> isCanonicalHex ''#808080''"
    unfolding gh[symmetric] by simp
  from lf hf lab hsb gray show ?thesis by blast
qed

text \<open>The gamma correction of the Lab branch overflows on a large argument.\<close>

lemma labCorrect_overflow:
  assumes "2 ^ 512 \<le> y"
  shows "labCorrect (Fin y) = PInf"
proof -
  have "(2::rat) ^ 512 * 2 ^ 512 \<le> y * y" using assms by (intro mult_mono) simp_all
  moreover have "overflowBound \<le> (2::rat) ^ 512 * 2 ^ 512" by (simp add: overflowBound_def)
  ultimately have "overflowBound \<le> y * y" by linarith
  then have sq: "jmul (Fin y) (Fin y) = PInf" by (simp add: overflow_def)
  have "(0::rat) < 2 ^ 512" by simp
  with assms have "0 < y" by linarith
  then have "jmul PInf (Fin y) = PInf" by simp
  with sq show ?thesis by (simp add: labCorrect_def Let_def)
qed

text \<open>A Lab colour of very large finite lightness: every channel is \<open>NaN\<close>.\<close>

lemma lab_overflow_channels:
  assumes "2 ^ 520 \<le> l" "l \<le> 2 ^ 900"
  shows "channels (labColor l 0 0) = Some (NaN, NaN, NaN)"
proof -
  define y where "y = (l + 16) / 116"
  have "(116::rat) * 2 ^ 512 \<le> 2 ^ 520" by simp
  with assms(1) have lo: "2 ^ 512 \<le> y" unfolding y_def by (simp add: le_divide_eq)
  have "(0::rat) < 2 ^ 520" by simp
  with assms(1) have pos: "0 < l" by linarith
  have "(2::rat) ^ 900 + 16 \<le> 2 ^ 901" by simp
  with assms(2) pos have "\<bar>l + 16\<bar> \<le> 2 ^ 901" by simp
  then have "overflow (l + 16) = Fin (l + 16)" by (rule overflow_pow) simp
  then have sum: "jadd (Fin l) (Fin 16) = Fin (l + 16)" by simp
  have "y \<le> l + 16" unfolding y_def using pos by (simp add: divide_le_eq)
  with \<open>\<bar>l + 16\<bar> \<le> 2 ^ 901\<close> lo have hi: "\<bar>y\<bar> \<le> 2 ^ 901" by simp
  then have ov: "overflow y = Fin y" by (rule overflow_pow) simp
  have yv: "jdiv (jadd (Fin l) (Fin 16)) (Fin 116) = Fin y"
    unfolding sum using ov by (simp add: y_def)
  have z500: "jdiv (Fin 0) (Fin 500) = Fin 0" "jdiv (Fin 0) (Fin 200) = Fin 0"
    by (simp_all add: overflow_small)
  have xv: "jadd (Fin 0) (Fin y) = Fin y" using ov by simp
  have zv: "jsub (Fin y) (Fin 0) = Fin y" using ov by (simp add: jsub_def)
  have c: "labCorrect (Fin y) = PInf" using lo by (rule labCorrect_overflow)
  have "labChannels (Fin l) (Fin 0) (Fin 0) = (NaN, NaN, NaN)"
    unfolding labChannels_def Let_def yv z500 xv zv c
    by (simp add: clampRound_def)
  then show ?thesis by (simp add: channels_def labColor_def noColor_def)
qed

text \<open>
  The claim as stated fails on a fractional RGB colour whose red component is \<open>NaN\<close>:
  the result has seven characters after \<open>#\<close> and is no hex string. It also fails on the
  Lab colour \<open>{l:1e200, a:0, b:0}\<close>, all of whose fields are finite: the cubes overflow
  to infinity, the matrix rows add infinities of opposite sign, and all three channels
  are \<open>NaN\<close>.
\<close>

theorem anyColorToHex_nan_counterexample:
  "anyColorToHex (Some (noColor \<lparr> col_fr := Some NaN, col_fg := Some (Fin 0), col_fb := Some (Fin 0) \<rparr>))
     = Some ''#NAN0000'' \<and> \<not> isCanonicalHex ''#NAN0000'' \<and>
   anyColorToHex (Some (labColor (10 ^ 200) 0 0)) = Some ''#NANNANNAN'' \<and>
   \<not> isCanonicalHex ''#NANNANNAN''"
proof -
  have a: "anyColorToHex (Some (noColor \<lparr> col_fr := Some NaN, col_fg := Some (Fin 0),
      col_fb := Some (Fin 0) \<rparr>)) = Some ''#NAN0000'' \<and> \<not> isCanonicalHex ''#NAN0000''"
    by code_simp
  define c where "c = labColor (10 ^ 200) 0 0"
  have ch: "channels c = Some (NaN, NaN, NaN)"
    unfolding c_def by (rule lab_overflow_channels) simp_all
  have "toUpperCase (''#'' @ padStart2 (toString16 NaN) @ padStart2 (toString16 NaN)
      @ padStart2 (toString16 NaN)) = ''#NANNANNAN''"
    by code_simp
  with ch have "anyColorToHex (Some c) = Some ''#NANNANNAN''"
    by (simp add: anyColorToHex_def clamp255_def)
  then have b: "anyColorToHex (Some (labColor (10 ^ 200) 0 0)) = Some ''#NANNANNAN''"
    unfolding c_def .
  have c: "\<not> isCanonicalHex ''#NANNANNAN''" by code_simp
  from a b c show ?thesis by blast
qed

subsection \<open>The tree builder\<close>

lemma extractLayerInfo_type:
  "i_type (i_props (extractLayerInfo (Layer p cs))) =
     (if l_text p \<noteq> None then TextLayer
      else if nonEmptyChildren cs then GroupLayer
      else if l_canvas p then ImageLayer
      else if l_vectorMask p \<noteq> None \<or> l_vectorStroke p \<noteq> None then ShapeLayer
      else UnknownLayer)"
  by simp

lemma hasChildren_nonEmpty: "hasChildren (Layer p cs) = nonEmptyChildren cs"
proof (cases cs)
  case None
  then show ?thesis by (simp add: hasChildren_def)
next
  case (Some xs)
  then show ?thesis by (cases xs) (simp_all add: hasChildren_def)
qed

text \<open>
  C2. \<open>extractLayerInfo\<close> assigns one type to every raw layer, by the first predicate that
  holds in the order text, children, raster data, vector data: Text if the layer has text
  content; else Group if it has one or more children; else Image if it has raster pixel
  data; else Shape if it has a vector mask or a vector stroke; else Unknown. A layer with
  both text and children is Text.
\<close>

theorem kind_precedence:
  "(hasText l \<longrightarrow> kindOf l = TextLayer) \<and>
   (\<not> hasText l \<and> hasChildren l \<longrightarrow> kindOf l = GroupLayer) \<and>
   (\<not> hasText l \<and> \<not> hasChildren l \<and> hasRaster l \<longrightarrow> kindOf l = ImageLayer) \<and>
   (\<not> hasText l \<and> \<not> hasChildren l \<and> \<not> hasRaster l \<and> hasVector l \<longrightarrow> kindOf l = ShapeLayer) \<and>
   (\<not> hasText l \<and> \<not> hasChildren l \<and> \<not> hasRaster l \<and> \<not> hasVector l \<longrightarrow> kindOf l = UnknownLayer) \<and>
   (hasText l \<and> hasChildren l \<longrightarrow> kindOf l = TextLayer)"
proof (cases l)
  case (Layer p cs)
  have k: "kindOf l =
     (if hasText l then TextLayer
      else if hasChildren l then GroupLayer
      else if hasRaster l then ImageLayer
      else if hasVector l then ShapeLayer
      else UnknownLayer)"
    unfolding kindOf_def Layer extractLayerInfo_type hasChildren_nonEmpty
    by (simp add: hasText_def hasRaster_def hasVector_def)
  show ?thesis unfolding k by simp
qed

theorem kind_precedence_witness:
  "hasText (Layer (l_props (textLayer ''Title'' 64 (frgbColor 1 0 0))) (Some [badge])) \<and>
   hasChildren (Layer (l_props (textLayer ''Title'' 64 (frgbColor 1 0 0))) (Some [badge])) \<and>
   kindOf (Layer (l_props (textLayer ''Title'' 64 (frgbColor 1 0 0))) (Some [badge])) = TextLayer"
proof -
  let ?l = "Layer (l_props (textLayer ''Title'' 64 (frgbColor 1 0 0))) (Some [badge])"
  have t: "hasText ?l" by (simp add: hasText_def textLayer_def)
  have c: "hasChildren ?l" by (simp add: hasChildren_def)
  from t c kind_precedence[of ?l] show ?thesis by blast
qed









lemma opacityOf_eq:
  "opacityOf l = (case l_opacity (l_props l) of None \<Rightarrow> Fin 1 | Some x \<Rightarrow> jdiv x (Fin 255))"
  by (cases l) (simp add: opacityOf_def)

text \<open>
  C4. For every layer the builder produces, the opacity is the raw opacity byte divided by
  255 when the byte is present and \<open>1\<close> otherwise, and it lies in \<open>[0, 1]\<close>. (The source
  divides and does not clamp: the range is that of a byte divided by 255.)
\<close>

theorem opacity_rule:
  "(l_opacity (l_props l) = None \<longrightarrow> opacityOf l = Fin 1 \<and> inUnitInterval (opacityOf l)) \<and>
   (l_opacity (l_props l) = Some (Fin q) \<and> isByte (Fin q) \<longrightarrow>
      opacityOf l = Fin (q / 255) \<and> inUnitInterval (opacityOf l)) \<and>
   (l_opacity (l_props l) = Some x \<longrightarrow> opacityOf l = jdiv x (Fin 255))"
proof -
  have byte: "opacityOf l = Fin (q / 255) \<and> inUnitInterval (opacityOf l)"
    if "l_opacity (l_props l) = Some (Fin q)" "isByte (Fin q)"
  proof -
    from that(2) have q: "0 \<le> q" "q \<le> 255" by simp_all
    then have "\<bar>q / 255\<bar> \<le> 18446744073709551616" by simp
    then have "overflow (q / 255) = Fin (q / 255)" by (rule overflow_small)
    with that(1) q show ?thesis by (simp add: opacityOf_eq)
  qed
  have rest: "(l_opacity (l_props l) = None \<longrightarrow> opacityOf l = Fin 1 \<and> inUnitInterval (opacityOf l)) \<and>
      (l_opacity (l_props l) = Some x \<longrightarrow> opacityOf l = jdiv x (Fin 255))"
    by (simp add: opacityOf_eq)
  from byte rest show ?thesis by blast
qed

theorem opacity_rule_witness:
  "l_opacity (l_props badge) = Some (Fin 128) \<and> isByte (Fin 128) \<and>
   opacityOf badge = Fin (128 / 255) \<and> inUnitInterval (opacityOf badge)"
proof -
  have o: "l_opacity (l_props badge) = Some (Fin 128)" by (simp add: badge_def emptyProps_def)
  have b: "isByte (Fin 128)" by simp
  from o b opacity_rule[of badge 128] show ?thesis by blast
qed

subsection \<open>Vector export\<close>

lemma vectorContentToColor_gradient: "vectorContentToColor (Some (GradientContent g)) = None"
  by (simp add: vectorContentToColor_def)

lemma vectorContentToColor_other: "vectorContentToColor (Some OtherContent) = None"
  by (simp add: vectorContentToColor_def)

lemma svgParts_fill: \<open>svgParts p m w h ! 3 = ''        fill="'' @ fillAttribute p @ ''"''\<close>
  by (simp add: svgParts_def)

lemma vectorContentToColor_rgb:
  "col_r c \<noteq> None \<Longrightarrow>
     vectorContentToColor (Some (ColorContent c))
       = Some (''rgb('' @ intToString (mathRound (num (col_r c))) @ '', ''
                @ intToString (mathRound (num (col_g c))) @ '', ''
                @ intToString (mathRound (num (col_b c))) @ '')'')"
  by (simp add: vectorContentToColor_def)

lemma vectorContentToColor_not_rgb:
  "col_r c = None \<Longrightarrow> vectorContentToColor (Some (ColorContent c)) = None"
  by (simp add: vectorContentToColor_def)

lemma fillAttribute_none_iff: "fillAttribute p = ''none'' \<longleftrightarrow> l_vectorFill p = None"
proof (cases "l_vectorFill p")
  case None
  then show ?thesis by (simp add: fillAttribute_def)
next
  case (Some content)
  show ?thesis
  proof (cases content)
    case (ColorContent c)
    with Some show ?thesis
      by (cases "col_r c = None")
        (simp_all add: fillAttribute_def vectorContentToColor_rgb vectorContentToColor_not_rgb)
  next
    case (GradientContent g)
    with Some show ?thesis by (simp add: fillAttribute_def vectorContentToColor_gradient)
  next
    case OtherContent
    with Some show ?thesis by (simp add: fillAttribute_def vectorContentToColor_other)
  qed
qed

text \<open>
  C5 (amended). For every vector layer whose vector fill is a gradient rather than a
  solid colour, the SVG that \<open>vectorLayerToSvg\<close> emits is filled black: its fill
  attribute is \<open>#000000\<close>, as it is for any vector fill that is not a solid colour with an
  \<open>r\<close> component. A solid RGB fill is written as \<open>rgb(r, g, b)\<close>. The fill attribute is
  \<open>none\<close> if and only if the layer has no vector fill at all.
\<close>

theorem gradient_fill_attribute:
  \<open>(l_vectorFill (l_props l) = Some (GradientContent g) \<and> l_vectorMask (l_props l) = Some m \<longrightarrow>
      fillAttribute (l_props l) = ''#000000'' \<and>
      vectorLayerToSvg l w h = Inr (joinWith [CHR 0x0A] (svgParts (l_props l) m w h)) \<and>
      svgParts (l_props l) m w h ! 3 = ''        fill="#000000"'') \<and>
   (fillAttribute (l_props l) = ''none'' \<longleftrightarrow> l_vectorFill (l_props l) = None) \<and>
   (l_vectorFill (l_props l) = Some (ColorContent c) \<and> col_r c \<noteq> None \<longrightarrow>
      fillAttribute (l_props l)
        = ''rgb('' @ intToString (mathRound (num (col_r c))) @ '', ''
            @ intToString (mathRound (num (col_g c))) @ '', ''
            @ intToString (mathRound (num (col_b c))) @ '')'') \<and>
   (l_vectorFill (l_props l) = Some (ColorContent c) \<and> col_r c = None \<longrightarrow>
      fillAttribute (l_props l) = ''#000000'') \<and>
   (l_vectorFill (l_props l) = Some OtherContent \<longrightarrow> fillAttribute (l_props l) = ''#000000'') \<and>
   svgParts (l_props l) m w h ! 3 = ''        fill="'' @ fillAttribute (l_props l) @ ''"''\<close>
proof -
  have grad: \<open>l_vectorFill (l_props l) = Some (GradientContent g) \<and> l_vectorMask (l_props l) = Some m \<longrightarrow>
      fillAttribute (l_props l) = ''#000000'' \<and>
      vectorLayerToSvg l w h = Inr (joinWith [CHR 0x0A] (svgParts (l_props l) m w h)) \<and>
      svgParts (l_props l) m w h ! 3 = ''        fill="#000000"''\<close>
    by (simp add: fillAttribute_def vectorContentToColor_gradient vectorLayerToSvg_def svgParts_fill)
  have iff: "fillAttribute (l_props l) = ''none'' \<longleftrightarrow> l_vectorFill (l_props l) = None"
    by (rule fillAttribute_none_iff)
  have rgb: "l_vectorFill (l_props l) = Some (ColorContent c) \<and> col_r c \<noteq> None \<longrightarrow>
      fillAttribute (l_props l)
        = ''rgb('' @ intToString (mathRound (num (col_r c))) @ '', ''
            @ intToString (mathRound (num (col_g c))) @ '', ''
            @ intToString (mathRound (num (col_b c))) @ '')''"
    by (simp add: fillAttribute_def vectorContentToColor_rgb)
  have norgb: "l_vectorFill (l_props l) = Some (ColorContent c) \<and> col_r c = None \<longrightarrow>
      fillAttribute (l_props l) = ''#000000''"
    by (simp add: fillAttribute_def vectorContentToColor_not_rgb)
  have other: "l_vectorFill (l_props l) = Some OtherContent \<longrightarrow> fillAttribute (l_props l) = ''#000000''"
    by (simp add: fillAttribute_def vectorContentToColor_other)
  have line: \<open>svgParts (l_props l) m w h ! 3 = ''        fill="'' @ fillAttribute (l_props l) @ ''"''\<close>
    by (rule svgParts_fill)
  from grad iff rgb norgb other line show ?thesis by blast
qed

theorem gradient_fill_attribute_witness:
  \<open>l_vectorFill (l_props submitButton) = Some (GradientContent sampleGradient) \<and>
   l_vectorMask (l_props submitButton) = Some sampleMask \<and>
   fillAttribute (l_props submitButton) = ''#000000'' \<and>
   svgParts (l_props submitButton) sampleMask (Fin 1440) (Fin 900) ! 3 = ''        fill="#000000"'' \<and>
   l_vectorFill (l_props badge) = Some (ColorContent (rgbColor 0 128 255)) \<and>
   fillAttribute (l_props badge) = ''rgb(0, 128, 255)'' \<and>
   l_vectorFill (l_props buttonGroup) = None \<and> fillAttribute (l_props buttonGroup) = ''none''\<close>
proof -
  have f: "l_vectorFill (l_props submitButton) = Some (GradientContent sampleGradient)"
    by (simp add: submitButton_def emptyProps_def)
  have m: "l_vectorMask (l_props submitButton) = Some sampleMask"
    by (simp add: submitButton_def emptyProps_def)
  from f m gradient_fill_attribute[of submitButton sampleGradient sampleMask "Fin 1440" "Fin 900"]
  have g: \<open>fillAttribute (l_props submitButton) = ''#000000'' \<and>
      svgParts (l_props submitButton) sampleMask (Fin 1440) (Fin 900) ! 3 = ''        fill="#000000"''\<close>
    by blast
  have bf: "l_vectorFill (l_props badge) = Some (ColorContent (rgbColor 0 128 255))"
    by (simp add: badge_def emptyProps_def)
  have br: "col_r (rgbColor 0 128 255) \<noteq> None" by (simp add: rgbColor_def)
  have bs: "''rgb('' @ intToString (mathRound (num (col_r (rgbColor 0 128 255)))) @ '', ''
      @ intToString (mathRound (num (col_g (rgbColor 0 128 255)))) @ '', ''
      @ intToString (mathRound (num (col_b (rgbColor 0 128 255)))) @ '')'' = ''rgb(0, 128, 255)''"
    by (simp add: rgbColor_def noColor_def evalDigits)
  from bf br gradient_fill_attribute[of badge _ _ _ _ "rgbColor 0 128 255"]
  have b: "fillAttribute (l_props badge) = ''rgb(0, 128, 255)''"
    unfolding bs[symmetric] by blast
  have nf: "l_vectorFill (l_props buttonGroup) = None" by (simp add: buttonGroup_def emptyProps_def)
  with gradient_fill_attribute[of buttonGroup] have n: "fillAttribute (l_props buttonGroup) = ''none''"
    by blast
  from f m g bf b nf n show ?thesis by blast
qed

text \<open>
  The claim as stated fails on the sample button, whose vector fill is a gradient: the
  fill line of its SVG is \<open>fill="#000000"\<close>, not \<open>fill="none"\<close>.
\<close>

theorem gradient_fill_counterexample:
  \<open>l_vectorFill (l_props submitButton) = Some (GradientContent sampleGradient) \<and>
   svgParts (l_props submitButton) sampleMask (Fin 1440) (Fin 900) ! 3 = ''        fill="#000000"'' \<and>
   svgParts (l_props submitButton) sampleMask (Fin 1440) (Fin 900) ! 3 \<noteq> ''        fill="none"'' \<and>
   fillAttribute (l_props submitButton) \<noteq> ''none''\<close>
  by (simp add: submitButton_def emptyProps_def svgParts_fill fillAttribute_def
      vectorContentToColor_gradient)

subsection \<open>Path geometry\<close>

lemma curveLoop_done: "length knots \<le> i \<Longrightarrow> curveLoop w h opn knots i = []"
  by (subst curveLoop.simps) simp

lemma curveLoop_closed2:
  "curveLoop w h False [k0, k1] 0 = [curveTo w h k0 k1, curveTo w h k1 k0]"
proof -
  have 2: "curveLoop w h False [k0, k1] (Suc (Suc 0)) = []" by (simp add: curveLoop_done)
  have 1: "curveLoop w h False [k0, k1] (Suc 0) = [curveTo w h k1 k0]"
    by (subst curveLoop.simps) (simp add: 2)
  show ?thesis by (subst curveLoop.simps) (simp add: 1)
qed

lemma curveLoop_open2: "curveLoop w h True [k0, k1] 0 = [curveTo w h k0 k1]"
proof -
  have 1: "curveLoop w h True [k0, k1] (Suc 0) = []" by (subst curveLoop.simps) simp
  show ?thesis by (subst curveLoop.simps) (simp add: 1)
qed

text \<open>
  C6. For two knots marked closed, \<open>bezierPathsToSvgPath\<close> gives a move-to to the first
  knot's anchor, the curve from the first knot to the second, the wrap-around curve from
  the second back to the first, and a closing \<open>Z\<close>; for the same knots marked open, the
  wrap-around curve and the \<open>Z\<close> are both left out; a path with no knots contributes
  nothing, alone or among other paths.
\<close>

theorem two_knot_path:
  "bezierPathsToSvgPath [\<lparr> path_open = False, path_knots = [k0, k1] \<rparr>] w h
     = moveTo w h k0 @ '' '' @ curveTo w h k0 k1 @ '' '' @ curveTo w h k1 k0 @ '' Z'' \<and>
   bezierPathsToSvgPath [\<lparr> path_open = True, path_knots = [k0, k1] \<rparr>] w h
     = moveTo w h k0 @ '' '' @ curveTo w h k0 k1 \<and>
   take 2 (moveTo w h k0) = ''M '' \<and> take 2 (curveTo w h k0 k1) = ''C '' \<and>
   pathCommands w h \<lparr> path_open = opn, path_knots = [] \<rparr> = [] \<and>
   bezierPathsToSvgPath [\<lparr> path_open = opn, path_knots = [] \<rparr>] w h = [] \<and>
   bezierPathsToSvgPath (ps @ [\<lparr> path_open = opn, path_knots = [] \<rparr>] @ qs) w h
     = bezierPathsToSvgPath (ps @ qs) w h"
  by (simp add: bezierPathsToSvgPath_def pathCommands_def curveLoop_closed2 curveLoop_open2
      moveTo_def curveTo_def)

theorem two_knot_path_witness:
  "bezierPathsToSvgPath [\<lparr> path_open = False, path_knots = [knotA, knotB] \<rparr>] (Fin 100) (Fin 200)
     = ''M 10.00 40.00 C 30.00 80.00, 50.00 100.00, 60.00 140.00 C 80.00 180.00, 0.00 0.00, 10.00 40.00 Z'' \<and>
   bezierPathsToSvgPath [\<lparr> path_open = True, path_knots = [knotA, knotB] \<rparr>] (Fin 100) (Fin 200)
     = ''M 10.00 40.00 C 30.00 80.00, 50.00 100.00, 60.00 140.00''"
proof -
  have m: "moveTo (Fin 100) (Fin 200) knotA = ''M 10.00 40.00''"
    by (simp add: moveTo_def scaleTo_def knotPoint_def knotA_def overflow_small evalDigits)
  have c1: "curveTo (Fin 100) (Fin 200) knotA knotB = ''C 30.00 80.00, 50.00 100.00, 60.00 140.00''"
    by (simp add: curveTo_def scaleTo_def knotPoint_def knotA_def knotB_def overflow_small
        evalDigits)
  have c2: "curveTo (Fin 100) (Fin 200) knotB knotA = ''C 80.00 180.00, 0.00 0.00, 10.00 40.00''"
    by (simp add: curveTo_def scaleTo_def knotPoint_def knotA_def knotB_def overflow_small
        evalDigits)
  from two_knot_path[of knotA knotB "Fin 100" "Fin 200" True "[]" "[]"]
  show ?thesis unfolding m c1 c2 by simp
qed

subsection \<open>Vector layer lookup\<close>

lemma findVectorLayer_mask:
  "findVectorLayer layers name = Some l \<Longrightarrow> l_vectorMask (l_props l) \<noteq> None"
  by (induction layers name rule: findVectorLayer.induct)
    (auto split: if_splits option.splits)

lemma getAllVectorLayers_mask:
  "l \<in> set (getAllVectorLayers layers) \<Longrightarrow> l_vectorMask (l_props l) \<noteq> None"
  by (induction layers rule: getAllVectorLayers.induct)
    (auto split: if_splits option.splits)

lemma vectorLayerToSvg_mask:
  "l_vectorMask (l_props l) \<noteq> None \<Longrightarrow> \<exists>svg. vectorLayerToSvg l w h = Inr svg"
  by (auto simp: vectorLayerToSvg_def)

text \<open>
  C10. Every layer that \<open>findVectorLayer\<close> returns and every layer that
  \<open>getAllVectorLayers\<close> returns carries a vector mask, so \<open>vectorLayerToSvg\<close> returns an
  SVG for it and never takes its error branch. A layer whose name matches but which has
  no vector mask is skipped by \<open>findVectorLayer\<close>: the search goes on in its children, and
  after them in the layers that follow it.
\<close>

theorem vector_lookup_has_mask:
  "(findVectorLayer layers name = Some l \<longrightarrow>
      l_vectorMask (l_props l) \<noteq> None \<and> (\<exists>svg. vectorLayerToSvg l w h = Inr svg)) \<and>
   (\<forall>v \<in> set (getAllVectorLayers layers).
      l_vectorMask (l_props v) \<noteq> None \<and> (\<exists>svg. vectorLayerToSvg v w h = Inr svg)) \<and>
   (rawNameMatches p name \<and> l_vectorMask p = None \<longrightarrow>
      findVectorLayer (Layer p None # rest) name = findVectorLayer rest name \<and>
      (findVectorLayer xs name = Some d \<longrightarrow>
         findVectorLayer (Layer p (Some xs) # rest) name = Some d) \<and>
      (findVectorLayer xs name = None \<longrightarrow>
         findVectorLayer (Layer p (Some xs) # rest) name = findVectorLayer rest name))"
proof -
  have a: "findVectorLayer layers name = Some l \<longrightarrow>
      l_vectorMask (l_props l) \<noteq> None \<and> (\<exists>svg. vectorLayerToSvg l w h = Inr svg)"
    using findVectorLayer_mask[of layers name l] vectorLayerToSvg_mask[of l w h] by blast
  have b: "\<forall>v \<in> set (getAllVectorLayers layers).
      l_vectorMask (l_props v) \<noteq> None \<and> (\<exists>svg. vectorLayerToSvg v w h = Inr svg)"
    using getAllVectorLayers_mask[of _ layers] vectorLayerToSvg_mask[of _ w h] by blast
  have c: "rawNameMatches p name \<and> l_vectorMask p = None \<longrightarrow>
      findVectorLayer (Layer p None # rest) name = findVectorLayer rest name \<and>
      (findVectorLayer xs name = Some d \<longrightarrow>
         findVectorLayer (Layer p (Some xs) # rest) name = Some d) \<and>
      (findVectorLayer xs name = None \<longrightarrow>
         findVectorLayer (Layer p (Some xs) # rest) name = findVectorLayer rest name)"
    by simp
  from a b c show ?thesis by blast
qed

theorem vector_lookup_has_mask_witness:
  "rawNameMatches (l_props buttonGroup) ''button'' \<and> l_vectorMask (l_props buttonGroup) = None \<and>
   findVectorLayer sampleLayers ''button'' = Some submitButton \<and>
   l_vectorMask (l_props submitButton) \<noteq> None \<and>
   (\<exists>svg. vectorLayerToSvg submitButton (Fin 1440) (Fin 900) = Inr svg) \<and>
   getAllVectorLayers sampleLayers = [submitButton, badge]"
proof -
  have n: "rawNameMatches (l_props buttonGroup) ''button''" by code_simp
  have v: "l_vectorMask (l_props buttonGroup) = None" by code_simp
  have f: "findVectorLayer sampleLayers ''button'' = Some submitButton" by code_simp
  have a: "getAllVectorLayers sampleLayers = [submitButton, badge]" by code_simp
  from f vector_lookup_has_mask[of sampleLayers "''button''" submitButton "Fin 1440" "Fin 900"]
  have "l_vectorMask (l_props submitButton) \<noteq> None \<and>
      (\<exists>svg. vectorLayerToSvg submitButton (Fin 1440) (Fin 900) = Inr svg)"
    by blast
  with n v f a show ?thesis by blast
qed

subsection \<open>Depth-limited views\<close>

lemma limitDepth_cut:
  "maxDepth \<le> int d \<Longrightarrow>
     limitDepth t d maxDepth = map (\<lambda>l. LayerInfo (i_props l) (elided (i_children l))) t"
proof (induction t)
  case Nil
  then show ?case by simp
next
  case (Cons l t)
  then show ?case by (cases l) simp
qed

lemma limitDepth_keep:
  "noEmptyChildren t \<Longrightarrow> int (d + treeDepth t) \<le> N \<Longrightarrow> limitDepth t d N = t"
proof (induction t d N rule: limitDepth.induct)
  case (1 currentDepth maxDepth)
  then show ?case by simp
next
  case (2 p cs rest currentDepth maxDepth)
  from "2.prems" have rest: "limitDepth rest currentDepth maxDepth = rest"
    by (intro "2.IH"(2)) auto
  show ?case
  proof (cases "maxDepth \<le> int currentDepth")
    case True
    with "2.prems"(2) have flat: "(case cs of None \<Rightarrow> 0 | Some xs \<Rightarrow> if xs = [] then 0 else 1 + treeDepth xs) = 0"
      by simp
    with "2.prems"(1) have "cs = None" by (cases cs) (auto split: if_splits)
    with True rest show ?thesis by (simp add: elided_def)
  next
    case False
    show ?thesis
    proof (cases cs)
      case None
      with False rest show ?thesis by simp
    next
      case (Some xs)
      with "2.prems" have "noEmptyChildren xs" "xs \<noteq> []" by auto
      moreover from Some \<open>xs \<noteq> []\<close> "2.prems"(2)
      have "int (currentDepth + 1 + treeDepth xs) \<le> maxDepth" by simp
      ultimately have "limitDepth xs (currentDepth + 1) maxDepth = xs"
        using False Some by (intro "2.IH"(1)) auto
      with False Some rest show ?thesis by simp
    qed
  qed
qed

lemma limitDepth_keep_nesting:
  "int (d + nestingDepth t) \<le> N \<Longrightarrow> limitDepth t d N = t"
proof (induction t d N rule: limitDepth.induct)
  case (1 currentDepth maxDepth)
  then show ?case by simp
next
  case (2 p cs rest currentDepth maxDepth)
  from "2.prems" have rest: "limitDepth rest currentDepth maxDepth = rest"
    by (intro "2.IH"(2)) auto
  show ?case
  proof (cases cs)
    case None
    with rest show ?thesis by (simp add: elided_def)
  next
    case (Some xs)
    with "2.prems" have deep: "int (currentDepth + 1 + nestingDepth xs) \<le> maxDepth" by simp
    then have below: "\<not> maxDepth \<le> int currentDepth" by simp
    with Some deep have "limitDepth xs (currentDepth + 1) maxDepth = xs"
      by (intro "2.IH"(1)) auto
    with below Some rest show ?thesis by simp
  qed
qed

lemma nestingDepth_treeDepth: "noEmptyChildren t \<Longrightarrow> nestingDepth t = treeDepth t"
proof (induction t rule: treeDepth.induct)
  case 1
  then show ?case by simp
next
  case (2 p cs rest)
  then show ?case by (cases cs) auto
qed

text \<open>The builder never produces an empty array of children.\<close>

lemma noEmptyChildren_built: "noEmptyChildren (map extractLayerInfo layers)"
proof (induction layers rule: getAllVectorLayers.induct)
  case 1
  then show ?case by simp
next
  case (2 p cs rest)
  then show ?case by (cases cs) auto
qed

lemma noEmptyChildren_buildLayers: "noEmptyChildren (buildLayers raw)"
  by (cases raw) (simp_all add: buildLayers_def noEmptyChildren_built)

text \<open>
  C7. \<open>limitDepth\<close> with a depth of 0 keeps every top-level node and replaces its
  children, when it has any, by exactly one placeholder whose name reports how many
  children were elided (a node without children has none afterwards). For every tree,
  \<open>limitDepth\<close> with a depth at or beyond the nesting depth of the tree returns the tree
  unchanged; for every tree the builder produces, and every tree that holds no empty
  array of children, this is the depth of the deepest node.
\<close>

theorem limitDepth_ends:
  "limitDepth t 0 0 = map (\<lambda>l. LayerInfo (i_props l) (elided (i_children l))) t \<and>
   elided None = None \<and> elided (Some []) = None \<and>
   elided (Some (c # cs)) = Some [placeholder (length (c # cs))] \<and>
   i_name (i_props (placeholder n)) = ''... ('' @ decDigits n @ '' children)'' \<and>
   i_children (placeholder n) = None \<and>
   (int (nestingDepth t) \<le> N \<longrightarrow> limitDepth t 0 N = t) \<and>
   (int (treeDepth (buildLayers raw)) \<le> N \<longrightarrow>
      limitDepth (buildLayers raw) 0 N = buildLayers raw) \<and>
   (noEmptyChildren t \<and> int (treeDepth t) \<le> N \<longrightarrow> limitDepth t 0 N = t)"
proof -
  have cut: "limitDepth t 0 0 = map (\<lambda>l. LayerInfo (i_props l) (elided (i_children l))) t"
    by (rule limitDepth_cut) simp
  have el: "elided None = None \<and> elided (Some []) = None \<and>
      elided (Some (c # cs)) = Some [placeholder (length (c # cs))]"
    by (simp add: elided_def)
  have ph: "i_name (i_props (placeholder n)) = ''... ('' @ decDigits n @ '' children)'' \<and>
      i_children (placeholder n) = None"
    by (simp add: placeholder_def)
  have built: "int (treeDepth (buildLayers raw)) \<le> N \<longrightarrow>
      limitDepth (buildLayers raw) 0 N = buildLayers raw"
    using limitDepth_keep[of "buildLayers raw" 0 N] noEmptyChildren_buildLayers[of raw] by simp
  have gen: "noEmptyChildren t \<and> int (treeDepth t) \<le> N \<longrightarrow> limitDepth t 0 N = t"
    using limitDepth_keep[of t 0 N] by simp
  have nest: "int (nestingDepth t) \<le> N \<longrightarrow> limitDepth t 0 N = t"
    using limitDepth_keep_nesting[of 0 t N] by simp
  from cut el ph nest built gen show ?thesis by blast
qed

lemma sample_treeDepth: "treeDepth (buildLayers (Some sampleLayers)) = 2"
  by code_simp

theorem limitDepth_ends_witness:
  "int (treeDepth (buildLayers (Some sampleLayers))) \<le> 2 \<and>
   limitDepth (buildLayers (Some sampleLayers)) 0 2 = buildLayers (Some sampleLayers) \<and>
   map i_children (limitDepth (buildLayers (Some sampleLayers)) 0 0) = [Some [placeholder 4], None]"
proof -
  have d: "int (treeDepth (buildLayers (Some sampleLayers))) \<le> 2"
    by (simp add: sample_treeDepth)
  have c: "map (\<lambda>l. elided (i_children l)) (buildLayers (Some sampleLayers))
      = [Some [placeholder 4], None]"
    by (simp add: buildLayers_def sampleLayers_def heroGroup_def badge_def elided_def
        eval_nat_numeral)
  from limitDepth_ends[where t = "buildLayers (Some sampleLayers)" and raw = "Some sampleLayers"
      and N = 2]
  have k: "int (treeDepth (buildLayers (Some sampleLayers))) \<le> 2 \<longrightarrow>
      limitDepth (buildLayers (Some sampleLayers)) 0 2 = buildLayers (Some sampleLayers)"
    and z: "limitDepth (buildLayers (Some sampleLayers)) 0 0
      = map (\<lambda>l. LayerInfo (i_props l) (elided (i_children l))) (buildLayers (Some sampleLayers))"
    by blast+
  have "map i_children (limitDepth (buildLayers (Some sampleLayers)) 0 0)
      = map (\<lambda>l. elided (i_children l)) (buildLayers (Some sampleLayers))"
    unfolding z by (simp add: comp_def)
  with c d k show ?thesis by simp
qed

subsection \<open>The colour palette\<close>

lemma set_setAdd: "set (setAdd seen xs) = set seen \<union> set xs"
  by (induction xs arbitrary: seen) auto

lemma distinct_setAdd: "distinct seen \<Longrightarrow> distinct (setAdd seen xs)"
  by (induction xs arbitrary: seen) auto

text \<open>
  C8. For every layer tree, the \<open>uniqueColors\<close> of the palette that \<open>extractAllColors\<close>
  produces are sorted in ascending lexicographic order, hold no duplicate, and are exactly
  the hex values of the entries of \<open>solidColors\<close>: every unique colour is the hex of some
  solid colour, and the colours of gradient stops add nothing.
\<close>

theorem uniqueColors_sorted_set:
  "sorted (uniqueColors (extractAllColors layers)) \<and>
   distinct (uniqueColors (extractAllColors layers)) \<and>
   sorted_wrt (<) (uniqueColors (extractAllColors layers)) \<and>
   set (uniqueColors (extractAllColors layers)) = ec_hex ` set (solidColors (extractAllColors layers))"
proof -
  let ?hexes = "map ec_hex (fst (traverseColors layers))"
  have u: "uniqueColors (extractAllColors layers) = sort (setAdd [] ?hexes)"
    by (simp add: extractAllColors_def Let_def)
  have s: "solidColors (extractAllColors layers) = fst (traverseColors layers)"
    by (simp add: extractAllColors_def Let_def)
  have d: "distinct (setAdd [] ?hexes)" by (rule distinct_setAdd) simp
  have "sorted (sort (setAdd [] ?hexes))" by simp
  moreover have "distinct (sort (setAdd [] ?hexes))" using d by simp
  moreover have "sorted_wrt (<) (sort (setAdd [] ?hexes))"
    using d by (simp add: strict_sorted_iff)
  moreover have "set (sort (setAdd [] ?hexes)) = ec_hex ` set (fst (traverseColors layers))"
    by (simp add: set_setAdd)
  ultimately show ?thesis unfolding u s by blast
qed

lemma sample_solid_hexes:
  "map ec_hex (solidColors (extractAllColors sampleLayers))
     = [''#1A1A1A'', ''#FF0000'', ''#1A1A1A'', ''#0080FF'']"
  by code_simp

lemma sample_gradients:
  "map gi_colors (gradients (extractAllColors sampleLayers)) = [[''#FF8000'', ''#0000FF'']]"
  by code_simp

lemma sample_unique: "uniqueColors (extractAllColors sampleLayers) = [''#0080FF'', ''#1A1A1A'', ''#FF0000'']"
  by code_simp

theorem uniqueColors_sorted_set_witness:
  "uniqueColors (extractAllColors sampleLayers) = [''#0080FF'', ''#1A1A1A'', ''#FF0000''] \<and>
   sorted [''#0080FF'', ''#1A1A1A'', ''#FF0000''] \<and>
   set [''#0080FF'', ''#1A1A1A'', ''#FF0000'']
     = ec_hex ` set (solidColors (extractAllColors sampleLayers))"
  using uniqueColors_sorted_set[of sampleLayers] unfolding sample_unique by blast

subsection \<open>The hero classifier\<close>




























end
